theory Spec2Isabelle
  imports Main "HOL-Library.AList"
begin

section \<open>Wire values\<close>

text \<open>
  The values \<^verbatim>\<open>json.loads\<close> produces. A Python \<^verbatim>\<open>dict\<close> is an association list read
  with \<open>map_of\<close>; Python's \<^verbatim>\<open>None\<close> is \<open>JNull\<close>. A float is kept as mantissa and binary
  exponent: only its truth value (non-zero) is ever consulted. Strings are sequences of
  code points below 256.
\<close>

datatype json =
    JNull
  | JBool bool
  | JInt int
  | JFloat int int
  | JStr string
  | JArr "json list"
  | JObj "(string \<times> json) list"

type_synonym raw = "(string \<times> json) list"

text \<open>Python's truth value of a decoded value (\<^verbatim>\<open>if x\<close>).\<close>

fun truthy :: "json \<Rightarrow> bool" where
  "truthy JNull = False"
| "truthy (JBool b) = b"
| "truthy (JInt n) = (n \<noteq> 0)"
| "truthy (JFloat m e) = (m \<noteq> 0)"
| "truthy (JStr s) = (s \<noteq> [])"
| "truthy (JArr xs) = (xs \<noteq> [])"
| "truthy (JObj kvs) = (kvs \<noteq> [])"

text \<open>\<^verbatim>\<open>d.get(k)\<close> and \<^verbatim>\<open>d.get(k, default)\<close>: the default only when the key is missing.\<close>

definition py_get :: "raw \<Rightarrow> string \<Rightarrow> json" where
  "py_get d k = (case map_of d k of None \<Rightarrow> JNull | Some v \<Rightarrow> v)"

definition py_get_default :: "raw \<Rightarrow> string \<Rightarrow> json \<Rightarrow> json" where
  "py_get_default d k dflt = (case map_of d k of None \<Rightarrow> dflt | Some v \<Rightarrow> v)"

section \<open>Errors\<close>

text \<open>
  \<open>JSONDecodeError\<close> carries its text (\<^verbatim>\<open>str(e)\<close>) and the document it was raised for
  (\<^verbatim>\<open>e.doc\<close>); \<open>RemoteProtocolError\<close> its text. \<open>KaiStreamError\<close> is built in
  \<^verbatim>\<open>sse.py\<close> from a message and a cause string and chained (\<^verbatim>\<open>raise ... from e\<close>) to
  the exception it wraps. The other errors are the ones Python itself raises in the
  normalizer: a method call on a value that has no such method, an unhashable dictionary
  key, and a model constructor rejecting an argument.
\<close>

datatype py_exception =
    JSONDecodeError (str_e: string) (doc: string)
  | RemoteProtocolError string

datatype error =
    KaiStreamError (message: string) (cause: string) (chained: py_exception)
  | AttributeError
  | TypeError
  | ValidationError

text \<open>The class of a raised error, as \<^verbatim>\<open>type(e).__name__\<close> gives it.\<close>

fun error_type :: "error \<Rightarrow> string" where
  "error_type (KaiStreamError m c e) = ''KaiStreamError''"
| "error_type AttributeError = ''AttributeError''"
| "error_type TypeError = ''TypeError''"
| "error_type ValidationError = ''ValidationError''"

definition bind_err :: "error + 'a \<Rightarrow> ('a \<Rightarrow> error + 'b) \<Rightarrow> error + 'b" where
  "bind_err r f = (case r of Inl e \<Rightarrow> Inl e | Inr v \<Rightarrow> f v)"

section \<open>Event model\<close>

text \<open>
  The classes of \<^verbatim>\<open>kai_client.models\<close>, with the fields \<^verbatim>\<open>sse.py\<close> passes to their
  constructors. The \<^verbatim>\<open>type\<close> argument is a fixed literal for every class but
  \<open>UnknownEvent\<close>, which keeps the wire type. The record field \<open>aid\<close> is the
  \<^verbatim>\<open>id\<close> of \<^verbatim>\<open>ToolApproval\<close>.
\<close>

record tool_approval =
  aid :: string
  approved :: "bool option"
  reason :: "string option"

datatype usage_info = UsageInfo (promptTokens: int) (completionTokens: int)

record tool_call_event =
  tool_call_id :: string
  tool_name :: "string option"
  state :: string
  tool_input :: json
  tool_output :: json
  approval :: "tool_approval option"

datatype event =
    TextEvent string "string option"
  | StepStartEvent
  | ToolCallEvent tool_call_event
  | ToolOutputErrorEvent string string
  | ToolApprovalRequestEvent string string
  | UsageEvent usage_info
  | FinishEvent string "usage_info option"
  | ErrorEvent string "string option"
  | UnknownEvent string raw

subsection \<open>Constructors\<close>

text \<open>
  Modelled from the spec: the model classes of \<^verbatim>\<open>kai_client.models\<close> are not part of the
  sources at hand. Their constructors are taken to check every argument against the type
  the data model gives the field (a string, an optional string, an optional boolean, an
  integer, any value) and to raise \<open>ValidationError\<close> for any other value.
\<close>

fun as_str :: "json \<Rightarrow> error + string" where
  "as_str (JStr s) = Inr s"
| "as_str _ = Inl ValidationError"

text \<open>Modelled from the spec: an optional string field of a model class (see \<open>as_str\<close>).\<close>

fun as_opt_str :: "json \<Rightarrow> error + string option" where
  "as_opt_str JNull = Inr None"
| "as_opt_str (JStr s) = Inr (Some s)"
| "as_opt_str _ = Inl ValidationError"

text \<open>Modelled from the spec: an optional boolean field of a model class (see \<open>as_str\<close>).\<close>

fun as_opt_bool :: "json \<Rightarrow> error + bool option" where
  "as_opt_bool JNull = Inr None"
| "as_opt_bool (JBool b) = Inr (Some b)"
| "as_opt_bool _ = Inl ValidationError"

text \<open>Modelled from the spec: an integer field of a model class (see \<open>as_str\<close>).\<close>

fun as_int :: "json \<Rightarrow> error + int" where
  "as_int (JInt n) = Inr n"
| "as_int _ = Inl ValidationError"

text \<open>Modelled from the spec: the constructor of \<^verbatim>\<open>ToolApproval\<close> (see \<open>as_str\<close>).\<close>

definition mk_ToolApproval :: "json \<Rightarrow> json \<Rightarrow> json \<Rightarrow> error + tool_approval" where
  "mk_ToolApproval i a r =
     bind_err (as_str i) (\<lambda>i'.
     bind_err (as_opt_bool a) (\<lambda>a'.
     bind_err (as_opt_str r) (\<lambda>r'.
       Inr \<lparr>aid = i', approved = a', reason = r'\<rparr>)))"

text \<open>Modelled from the spec: the constructor of \<^verbatim>\<open>UsageInfo\<close> (see \<open>as_str\<close>).\<close>

definition mk_UsageInfo :: "json \<Rightarrow> json \<Rightarrow> error + usage_info" where
  "mk_UsageInfo p c =
     bind_err (as_int p) (\<lambda>p'.
     bind_err (as_int c) (\<lambda>c'. Inr (UsageInfo p' c')))"

text \<open>
  Modelled from the spec: the \<^verbatim>\<open>usage\<close> argument of \<^verbatim>\<open>FinishEvent\<close>, which
  \<^verbatim>\<open>sse.py\<close> passes as the undecoded mapping or \<^verbatim>\<open>None\<close>; the mapping is turned into a
  \<^verbatim>\<open>UsageInfo\<close> from its \<^verbatim>\<open>promptTokens\<close> and \<^verbatim>\<open>completionTokens\<close> entries.
\<close>

fun as_opt_usage :: "json \<Rightarrow> error + usage_info option" where
  "as_opt_usage JNull = Inr None"
| "as_opt_usage (JObj kvs) =
     (case (map_of kvs ''promptTokens'', map_of kvs ''completionTokens'') of
        (Some p, Some c) \<Rightarrow> bind_err (mk_UsageInfo p c) (\<lambda>u. Inr (Some u))
      | _ \<Rightarrow> Inl ValidationError)"
| "as_opt_usage _ = Inl ValidationError"

text \<open>Modelled from the spec: the constructor of \<^verbatim>\<open>TextEvent\<close> (see \<open>as_str\<close>).\<close>

definition mk_TextEvent :: "json \<Rightarrow> json \<Rightarrow> error + event" where
  "mk_TextEvent t s =
     bind_err (as_str t) (\<lambda>t'.
     bind_err (as_opt_str s) (\<lambda>s'. Inr (TextEvent t' s')))"

text \<open>Modelled from the spec: the constructor of \<^verbatim>\<open>ToolCallEvent\<close> (see \<open>as_str\<close>).\<close>

definition mk_ToolCallEvent ::
  "json \<Rightarrow> json \<Rightarrow> json \<Rightarrow> json \<Rightarrow> json \<Rightarrow> tool_approval option \<Rightarrow> error + event" where
  "mk_ToolCallEvent i n s inp outp ap =
     bind_err (as_str i) (\<lambda>i'.
     bind_err (as_opt_str n) (\<lambda>n'.
     bind_err (as_str s) (\<lambda>s'.
       Inr (ToolCallEvent \<lparr>tool_call_id = i', tool_name = n', state = s',
              tool_input = inp, tool_output = outp, approval = ap\<rparr>))))"

text \<open>Modelled from the spec: the constructor of \<^verbatim>\<open>FinishEvent\<close> (see \<open>as_str\<close>).\<close>

definition mk_FinishEvent :: "json \<Rightarrow> json \<Rightarrow> error + event" where
  "mk_FinishEvent r u =
     bind_err (as_str r) (\<lambda>r'.
     bind_err (as_opt_usage u) (\<lambda>u'. Inr (FinishEvent r' u')))"

text \<open>Modelled from the spec: the constructor of \<^verbatim>\<open>ErrorEvent\<close> (see \<open>as_str\<close>).\<close>

definition mk_ErrorEvent :: "json \<Rightarrow> json \<Rightarrow> error + event" where
  "mk_ErrorEvent m c =
     bind_err (as_str m) (\<lambda>m'.
     bind_err (as_opt_str c) (\<lambda>c'. Inr (ErrorEvent m' c')))"

text \<open>Modelled from the spec: the constructor of \<^verbatim>\<open>ToolOutputErrorEvent\<close> (see \<open>as_str\<close>).\<close>

definition mk_ToolOutputErrorEvent :: "json \<Rightarrow> json \<Rightarrow> error + event" where
  "mk_ToolOutputErrorEvent i t =
     bind_err (as_str i) (\<lambda>i'.
     bind_err (as_str t) (\<lambda>t'. Inr (ToolOutputErrorEvent i' t')))"

text \<open>Modelled from the spec: the constructor of \<^verbatim>\<open>ToolApprovalRequestEvent\<close> (see \<open>as_str\<close>).\<close>

definition mk_ToolApprovalRequestEvent :: "json \<Rightarrow> json \<Rightarrow> error + event" where
  "mk_ToolApprovalRequestEvent a i =
     bind_err (as_str a) (\<lambda>a'.
     bind_err (as_str i) (\<lambda>i'. Inr (ToolApprovalRequestEvent a' i')))"

text \<open>Modelled from the spec: the constructor of \<^verbatim>\<open>UnknownEvent\<close> (see \<open>as_str\<close>).\<close>

definition mk_UnknownEvent :: "json \<Rightarrow> raw \<Rightarrow> error + event" where
  "mk_UnknownEvent t d = bind_err (as_str t) (\<lambda>t'. Inr (UnknownEvent t' d))"

section \<open>Dialect normalizer\<close>

text \<open>
  The individual parsers of \<^verbatim>\<open>sse.py\<close>; a leading underscore of the Python name is
  dropped. Each evaluates its arguments as the source does and calls the constructor.
\<close>

definition parse_approval :: "raw \<Rightarrow> error + tool_approval option" where
  "parse_approval data =
     (let approval_data = py_get data ''approval'' in
      case approval_data of
        JObj kvs \<Rightarrow>
          (if truthy approval_data then
             (case map_of kvs ''id'' of
                Some i \<Rightarrow>
                  bind_err (mk_ToolApproval i (py_get kvs ''approved'') (py_get kvs ''reason''))
                    (\<lambda>a. Inr (Some a))
              | None \<Rightarrow> Inr None)
           else Inr None)
      | _ \<Rightarrow> Inr None)"

definition parse_text_event :: "raw \<Rightarrow> error + event" where
  "parse_text_event data =
     mk_TextEvent (py_get_default data ''text'' (JStr [])) (py_get data ''state'')"

definition parse_text_delta_event :: "raw \<Rightarrow> error + event" where
  "parse_text_delta_event data =
     mk_TextEvent (py_get_default data ''delta'' (JStr [])) (py_get data ''state'')"

definition parse_step_start_event :: "raw \<Rightarrow> error + event" where
  "parse_step_start_event data = Inr StepStartEvent"

definition parse_tool_call_event :: "raw \<Rightarrow> error + event" where
  "parse_tool_call_event data =
     bind_err (parse_approval data) (\<lambda>ap.
       mk_ToolCallEvent (py_get_default data ''toolCallId'' (JStr [])) (py_get data ''toolName'')
         (py_get_default data ''state'' (JStr [])) (py_get data ''input'')
         (py_get data ''output'') ap)"

definition parse_tool_input_start_event :: "raw \<Rightarrow> error + event" where
  "parse_tool_input_start_event data =
     mk_ToolCallEvent (py_get_default data ''toolCallId'' (JStr [])) (py_get data ''toolName'')
       (JStr ''started'') JNull JNull None"

definition parse_tool_input_available_event :: "raw \<Rightarrow> error + event" where
  "parse_tool_input_available_event data =
     bind_err (parse_approval data) (\<lambda>ap.
       mk_ToolCallEvent (py_get_default data ''toolCallId'' (JStr [])) (py_get data ''toolName'')
         (JStr ''input-available'') (py_get data ''input'') JNull ap)"

definition parse_tool_output_available_event :: "raw \<Rightarrow> error + event" where
  "parse_tool_output_available_event data =
     mk_ToolCallEvent (py_get_default data ''toolCallId'' (JStr [])) (py_get data ''toolName'')
       (JStr ''output-available'') JNull (py_get data ''output'') None"

definition parse_finish_event :: "raw \<Rightarrow> error + event" where
  "parse_finish_event data =
     (let usage = py_get data ''usage'' in
      mk_FinishEvent (py_get_default data ''finishReason'' (JStr ''stop''))
        (if truthy usage then usage else JNull))"

definition parse_error_event :: "raw \<Rightarrow> error + event" where
  "parse_error_event data =
     mk_ErrorEvent (py_get_default data ''message'' (JStr ''Unknown error''))
       (py_get data ''code'')"

definition parse_tool_output_error_event :: "raw \<Rightarrow> error + event" where
  "parse_tool_output_error_event data =
     mk_ToolOutputErrorEvent (py_get_default data ''toolCallId'' (JStr []))
       (py_get_default data ''errorText'' (JStr ''Unknown error''))"

definition parse_tool_approval_request_event :: "raw \<Rightarrow> error + event" where
  "parse_tool_approval_request_event data =
     mk_ToolApprovalRequestEvent (py_get_default data ''approvalId'' (JStr []))
       (py_get_default data ''toolCallId'' (JStr []))"

text \<open>
  \<^verbatim>\<open>usage_data = data.get("data", {})\<close> is read with \<^verbatim>\<open>.get\<close> whatever it is: a value
  that is not a mapping has no such method.
\<close>

definition parse_usage_event :: "raw \<Rightarrow> error + event" where
  "parse_usage_event data =
     (case py_get_default data ''data'' (JObj []) of
        JObj usage_data \<Rightarrow>
          bind_err (mk_UsageInfo (py_get_default usage_data ''promptTokens'' (JInt 0))
                      (py_get_default usage_data ''completionTokens'' (JInt 0)))
            (\<lambda>u. Inr (UsageEvent u))
      | _ \<Rightarrow> Inl AttributeError)"

definition EVENT_PARSERS :: "(string \<times> (raw \<Rightarrow> error + event)) list" where
  "EVENT_PARSERS =
     [(''text'', parse_text_event),
      (''text-delta'', parse_text_delta_event),
      (''step-start'', parse_step_start_event),
      (''start-step'', parse_step_start_event),
      (''tool-call'', parse_tool_call_event),
      (''tool-input-start'', parse_tool_input_start_event),
      (''tool-input-available'', parse_tool_input_available_event),
      (''tool-output-available'', parse_tool_output_available_event),
      (''tool-output-error'', parse_tool_output_error_event),
      (''tool-approval-request'', parse_tool_approval_request_event),
      (''data-usage'', parse_usage_event),
      (''finish'', parse_finish_event),
      (''finish-step'', parse_finish_event),
      (''error'', parse_error_event)]"

text \<open>
  \<^verbatim>\<open>parse_sse_event\<close> receives whatever \<^verbatim>\<open>json.loads\<close> returned. \<^verbatim>\<open>data.get\<close> exists
  only on a mapping; the table lookup hashes the type, which a list or a mapping does
  not allow; a type that is no key of the table gives the \<open>UnknownEvent\<close>.
\<close>

definition parse_sse_event :: "json \<Rightarrow> error + event" where
  "parse_sse_event data =
     (case data of
        JObj d \<Rightarrow>
          (let event_type = py_get_default d ''type'' (JStr []) in
           case event_type of
             JArr _ \<Rightarrow> Inl TypeError
           | JObj _ \<Rightarrow> Inl TypeError
           | JStr t \<Rightarrow>
               (case map_of EVENT_PARSERS t of
                  Some parser \<Rightarrow> parser d
                | None \<Rightarrow> mk_UnknownEvent event_type d)
           | _ \<Rightarrow> mk_UnknownEvent event_type d)
      | _ \<Rightarrow> Inl AttributeError)"

section \<open>SSE line reader\<close>

text \<open>Python's \<^verbatim>\<open>str.isspace\<close> on one code point below 256, \<^verbatim>\<open>strip\<close> and \<^verbatim>\<open>startswith\<close>.\<close>

definition py_isspace :: "char \<Rightarrow> bool" where
  "py_isspace c =
     (let n = (of_char c :: nat) in
      (9 \<le> n \<and> n \<le> 13) \<or> (28 \<le> n \<and> n \<le> 32) \<or> n = 133 \<or> n = 160)"

definition py_strip :: "string \<Rightarrow> string" where
  "py_strip s = rev (dropWhile py_isspace (rev (dropWhile py_isspace s)))"

definition startswith :: "string \<Rightarrow> string \<Rightarrow> bool" where
  "startswith s p = (take (length p) s = p)"

text \<open>
  \<^verbatim>\<open>json.loads\<close> is the standard library's: the reader takes the decoder as the parameter
  \<open>loads\<close>, which returns the decoded value or the text of the decode error. The
  \<open>JSONDecodeError\<close> raised records the document that was being decoded.
\<close>

definition json_loads :: "(string \<Rightarrow> string + json) \<Rightarrow> string \<Rightarrow> py_exception + json" where
  "json_loads loads s = (case loads s of Inl m \<Rightarrow> Inl (JSONDecodeError m s) | Inr v \<Rightarrow> Inr v)"

text \<open>What one pass of the loop body of \<^verbatim>\<open>parse_sse_stream\<close> does with a line.\<close>

datatype line_result = Skip | Yield event | Raise error

definition process_line :: "(string \<Rightarrow> string + json) \<Rightarrow> string \<Rightarrow> line_result" where
  "process_line loads line =
     (if line = [] \<or> startswith line '':'' then Skip
      else if startswith line ''data: '' then
        (let json_str = drop 6 line; stripped = py_strip json_str in
         if stripped = [] then Skip
         else if stripped = ''[DONE]'' then Skip
         else
           (case json_loads loads json_str of
              Inl e \<Rightarrow>
                Raise (KaiStreamError (''Failed to parse SSE event: '' @ str_e e) (str_e e) e)
            | Inr data \<Rightarrow>
                (case parse_sse_event data of
                   Inl err \<Rightarrow> Raise err
                 | Inr ev \<Rightarrow> Yield ev)))
      else if startswith line ''event: '' then Skip
      else if startswith line ''id: '' then Skip
      else if startswith line ''retry: '' then Skip
      else Skip)"

text \<open>
  How \<^verbatim>\<open>response.aiter_lines()\<close> ends after its last line: it is exhausted, or it raises
  \<^verbatim>\<open>httpx.StreamClosed\<close> or \<^verbatim>\<open>httpx.RemoteProtocolError\<close> (with its text).
\<close>

datatype stream_end = Exhausted | StreamClosed | ProtocolError string

text \<open>
  The generator \<^verbatim>\<open>parse_sse_stream\<close>: the events it yields, in order, and the error it
  raises after them, if any. An error raised in the loop body is none of the two the
  outer handlers catch and leaves the generator as it is.
\<close>

fun parse_sse_stream ::
  "(string \<Rightarrow> string + json) \<Rightarrow> string list \<Rightarrow> stream_end \<Rightarrow> event list \<times> error option" where
  "parse_sse_stream loads [] Exhausted = ([], None)"
| "parse_sse_stream loads [] StreamClosed = ([], None)"
| "parse_sse_stream loads [] (ProtocolError m) =
     ([], Some (KaiStreamError ''Connection error during streaming'' m (RemoteProtocolError m)))"
| "parse_sse_stream loads (line # rest) fin =
     (case process_line loads line of
        Skip \<Rightarrow> parse_sse_stream loads rest fin
      | Yield ev \<Rightarrow> (case parse_sse_stream loads rest fin of (evs, r) \<Rightarrow> (ev # evs, r))
      | Raise err \<Rightarrow> ([], Some err))"

section \<open>Stream accumulator and tool-call tracker\<close>

text \<open>
  The attributes of \<^verbatim>\<open>SSEStreamParser\<close>. The dictionary \<^verbatim>\<open>_tool_calls\<close> keeps insertion
  order: an association list updated in place or extended at the end. In
  \<^verbatim>\<open>process_event\<close> the test \<^verbatim>\<open>if event.usage\<close> is on a model object or \<^verbatim>\<open>None\<close>: an
  object is true.
\<close>

record stream_state =
  accumulated_text :: "string list"
  tool_calls :: "(string \<times> tool_call_event) list"
  finished :: bool
  finish_reason :: "string option"
  prompt_tokens :: int
  completion_tokens :: int

definition init_state :: stream_state where
  "init_state = \<lparr>accumulated_text = [], tool_calls = [], finished = False,
     finish_reason = None, prompt_tokens = 0, completion_tokens = 0\<rparr>"

text \<open>The property \<^verbatim>\<open>text\<close>.\<close>

definition text_of :: "stream_state \<Rightarrow> string" where
  "text_of s = concat (accumulated_text s)"

definition total_tokens :: "stream_state \<Rightarrow> int" where
  "total_tokens s = prompt_tokens s + completion_tokens s"

fun process_event :: "stream_state \<Rightarrow> event \<Rightarrow> stream_state" where
  "process_event s (TextEvent t st) = s\<lparr>accumulated_text := accumulated_text s @ [t]\<rparr>"
| "process_event s (ToolCallEvent tc) =
     s\<lparr>tool_calls := AList.update (tool_call_id tc) tc (tool_calls s)\<rparr>"
| "process_event s (UsageEvent u) =
     s\<lparr>prompt_tokens := prompt_tokens s + promptTokens u,
       completion_tokens := completion_tokens s + completionTokens u\<rparr>"
| "process_event s (FinishEvent r u) =
     (let s' = s\<lparr>finished := True, finish_reason := Some r\<rparr> in
      case u of
        Some usage \<Rightarrow>
          s'\<lparr>prompt_tokens := prompt_tokens s' + promptTokens usage,
             completion_tokens := completion_tokens s' + completionTokens usage\<rparr>
      | None \<Rightarrow> s')"
| "process_event s _ = s"

definition reset :: "stream_state \<Rightarrow> stream_state" where
  "reset s = s\<lparr>accumulated_text := [], tool_calls := [], finished := False,
     finish_reason := None, prompt_tokens := 0, completion_tokens := 0\<rparr>"

text \<open>Feeding a sequence of events to \<^verbatim>\<open>process_event\<close>, one after the other.\<close>

definition process_events :: "stream_state \<Rightarrow> event list \<Rightarrow> stream_state" where
  "process_events s evs = foldl process_event s evs"

text \<open>
  \<^verbatim>\<open>consume_stream\<close>: every event the reader yields is processed; the state reached and
  the reader's error, if any.
\<close>

definition consume_stream ::
  "(string \<Rightarrow> string + json) \<Rightarrow> stream_state \<Rightarrow> string list \<Rightarrow> stream_end
     \<Rightarrow> stream_state \<times> event list \<times> error option" where
  "consume_stream loads s lines fin =
     (case parse_sse_stream loads lines fin of
        (evs, r) \<Rightarrow> (process_events s evs, evs, r))"

text \<open>
  The pending query of \<^verbatim>\<open>stream_and_collect\<close> (examples): the last event of every id, in
  the order of the dictionary, kept when its state is \<^verbatim>\<open>input-available\<close>.
\<close>

definition pending_tools :: "(string \<times> tool_call_event) list \<Rightarrow> tool_call_event list" where
  "pending_tools tool_states =
     map snd (filter (\<lambda>(tool_call_id, last_event). state last_event = ''input-available'')
       tool_states)"

definition pending_ids :: "stream_state \<Rightarrow> string set" where
  "pending_ids s = set (map tool_call_id (pending_tools (tool_calls s)))"

section \<open>Notions of the specification\<close>

text \<open>
  The usage record an event carries, in the specification's words: that of a \<open>Usage\<close>
  event, or the one embedded in a \<open>Finish\<close> event.
\<close>

definition spec_usage_of :: "event \<Rightarrow> usage_info option" where
  "spec_usage_of e = (case e of UsageEvent u \<Rightarrow> Some u | FinishEvent r u \<Rightarrow> u | _ \<Rightarrow> None)"

text \<open>The event is a \<open>ToolCall\<close> event for the tool-call id \<open>i\<close>.\<close>

fun is_tool_call_for :: "string \<Rightarrow> event \<Rightarrow> bool" where
  "is_tool_call_for i (ToolCallEvent tc) = (tool_call_id tc = i)"
| "is_tool_call_for i _ = False"

text \<open>
  The invariant of the dictionary \<^verbatim>\<open>_tool_calls\<close>: keys are unique and every event is
  stored under its own id.
\<close>

definition wf_calls :: "(string \<times> tool_call_event) list \<Rightarrow> bool" where
  "wf_calls ts =
     (distinct (map fst ts) \<and> (\<forall>k e. map_of ts k = Some e \<longrightarrow> tool_call_id e = k))"

section \<open>Sample documents\<close>

text \<open>
  Payloads for the concrete runs below, and a decoder that agrees with \<^verbatim>\<open>json.loads\<close> on
  them: three records of the local dialect, a usage record whose \<^verbatim>\<open>data\<close> is \<^verbatim>\<open>null\<close>,
  and texts that are no JSON at all, with the text of the decode error.
\<close>

definition doc_hello :: string where
  \<open>doc_hello = ''{"type":"text","text":"Hello "}''\<close>

definition doc_world :: string where
  \<open>doc_world = ''{"type":"text","text":"world!"}''\<close>

definition doc_finish :: string where
  \<open>doc_finish = ''{"type":"finish","finishReason":"stop"}''\<close>

definition doc_usage_null :: string where
  \<open>doc_usage_null = ''{"type":"data-usage","data":null}''\<close>

definition sample_loads :: "string \<Rightarrow> string + json" where
  "sample_loads s =
     (if s = doc_hello then Inr (JObj [(''type'', JStr ''text''), (''text'', JStr ''Hello '')])
      else if s = doc_world then
        Inr (JObj [(''type'', JStr ''text''), (''text'', JStr ''world!'')])
      else if s = doc_finish then
        Inr (JObj [(''type'', JStr ''finish''), (''finishReason'', JStr ''stop'')])
      else if s = doc_usage_null then
        Inr (JObj [(''type'', JStr ''data-usage''), (''data'', JNull)])
      else if s = ''{not-json}'' then
        Inl ''Expecting property name enclosed in double quotes: line 1 column 2 (char 1)''
      else if s = ''[DONE]'' then Inl ''Expecting value: line 1 column 2 (char 1)''
      else Inl ''Expecting value: line 1 column 1 (char 0)'')"

section \<open>Properties\<close>

subsection \<open>Folding events\<close>

lemma process_events_Nil: "process_events s [] = s"
  by (simp add: process_events_def)

lemma process_events_Cons: "process_events s (e # es) = process_events (process_event s e) es"
  by (simp add: process_events_def)

lemma process_events_append:
  "process_events s (xs @ ys) = process_events (process_events s xs) ys"
  by (simp add: process_events_def)

subsection \<open>Token usage\<close>

lemma process_event_prompt:
  "prompt_tokens (process_event s e) =
     prompt_tokens s + (case spec_usage_of e of Some u \<Rightarrow> promptTokens u | None \<Rightarrow> 0)"
  by (cases e) (simp_all add: spec_usage_of_def Let_def split: option.splits)

lemma process_event_completion:
  "completion_tokens (process_event s e) =
     completion_tokens s + (case spec_usage_of e of Some u \<Rightarrow> completionTokens u | None \<Rightarrow> 0)"
  by (cases e) (simp_all add: spec_usage_of_def Let_def split: option.splits)

lemma process_events_prompt:
  "prompt_tokens (process_events s es) =
     prompt_tokens s + (\<Sum>e\<leftarrow>es. case spec_usage_of e of Some u \<Rightarrow> promptTokens u | None \<Rightarrow> 0)"
  by (induction es arbitrary: s)
    (simp_all add: process_events_Nil process_events_Cons process_event_prompt)

lemma process_events_completion:
  "completion_tokens (process_events s es) =
     completion_tokens s
       + (\<Sum>e\<leftarrow>es. case spec_usage_of e of Some u \<Rightarrow> completionTokens u | None \<Rightarrow> 0)"
  by (induction es arbitrary: s)
    (simp_all add: process_events_Nil process_events_Cons process_event_completion)

lemma sum_list_nonneg_case:
  "(\<forall>e\<in>set es. \<forall>u. spec_usage_of e = Some u \<longrightarrow> 0 \<le> f u) \<Longrightarrow>
     (0::int) \<le> (\<Sum>e\<leftarrow>es. case spec_usage_of e of Some u \<Rightarrow> f u | None \<Rightarrow> 0)"
  by (rule sum_list_nonneg) (auto split: option.splits)

text \<open>
  C8, as the code has it. Both token counters are additive: after any event sequence
  each counter is its starting value plus the sum of that field over every \<open>Usage\<close>
  event and every \<open>Finish\<close> event with an embedded usage record; one such event adds
  its two counts, an event of any other kind leaves both counters as they are.
  Processing \<open>Usage{10,5}\<close>, \<open>Usage{3,2}\<close> and a \<open>Finish\<close> embedding \<open>{1,1}\<close> from the
  initial state gives 14 prompt tokens and 8 completion tokens. No sign is checked: the
  counters do not decrease as long as every carried count is non-negative, and an event
  that carries a negative count lowers the counter.
\<close>

theorem usage_totals_additive:
  "prompt_tokens (process_events s es) =
     prompt_tokens s + (\<Sum>e\<leftarrow>es. case spec_usage_of e of Some u \<Rightarrow> promptTokens u | None \<Rightarrow> 0)
   \<and> completion_tokens (process_events s es) =
     completion_tokens s
       + (\<Sum>e\<leftarrow>es. case spec_usage_of e of Some u \<Rightarrow> completionTokens u | None \<Rightarrow> 0)
   \<and> ((\<forall>e\<in>set es. \<forall>u. spec_usage_of e = Some u
          \<longrightarrow> 0 \<le> promptTokens u \<and> 0 \<le> completionTokens u)
        \<longrightarrow> prompt_tokens s \<le> prompt_tokens (process_events s es)
          \<and> completion_tokens s \<le> completion_tokens (process_events s es))
   \<and> prompt_tokens (process_events init_state
        [UsageEvent (UsageInfo 10 5), UsageEvent (UsageInfo 3 2),
         FinishEvent ''stop'' (Some (UsageInfo 1 1))]) = 14
   \<and> completion_tokens (process_events init_state
        [UsageEvent (UsageInfo 10 5), UsageEvent (UsageInfo 3 2),
         FinishEvent ''stop'' (Some (UsageInfo 1 1))]) = 8
   \<and> (spec_usage_of e = None
        \<longrightarrow> prompt_tokens (process_event s e) = prompt_tokens s
          \<and> completion_tokens (process_event s e) = completion_tokens s)
   \<and> (spec_usage_of e = Some u
        \<longrightarrow> prompt_tokens (process_event s e) = prompt_tokens s + promptTokens u
          \<and> completion_tokens (process_event s e) = completion_tokens s + completionTokens u)
   \<and> (spec_usage_of e = Some u \<and> promptTokens u < 0
        \<longrightarrow> prompt_tokens (process_event s e) < prompt_tokens s)
   \<and> (spec_usage_of e = Some u \<and> completionTokens u < 0
        \<longrightarrow> completion_tokens (process_event s e) < completion_tokens s)"
proof (intro conjI impI)
  show "prompt_tokens (process_events s es) =
     prompt_tokens s + (\<Sum>e\<leftarrow>es. case spec_usage_of e of Some u \<Rightarrow> promptTokens u | None \<Rightarrow> 0)"
    by (rule process_events_prompt)
  show "completion_tokens (process_events s es) =
     completion_tokens s
       + (\<Sum>e\<leftarrow>es. case spec_usage_of e of Some u \<Rightarrow> completionTokens u | None \<Rightarrow> 0)"
    by (rule process_events_completion)
next
  assume h: "\<forall>e\<in>set es. \<forall>u. spec_usage_of e = Some u
    \<longrightarrow> 0 \<le> promptTokens u \<and> 0 \<le> completionTokens u"
  then have "0 \<le> (\<Sum>e\<leftarrow>es. case spec_usage_of e of Some u \<Rightarrow> promptTokens u | None \<Rightarrow> 0)"
    by (intro sum_list_nonneg_case) blast
  then show "prompt_tokens s \<le> prompt_tokens (process_events s es)"
    by (simp add: process_events_prompt)
  from h have
    "0 \<le> (\<Sum>e\<leftarrow>es. case spec_usage_of e of Some u \<Rightarrow> completionTokens u | None \<Rightarrow> 0)"
    by (intro sum_list_nonneg_case) blast
  then show "completion_tokens s \<le> completion_tokens (process_events s es)"
    by (simp add: process_events_completion)
next
  show "prompt_tokens (process_events init_state
        [UsageEvent (UsageInfo 10 5), UsageEvent (UsageInfo 3 2),
         FinishEvent ''stop'' (Some (UsageInfo 1 1))]) = 14"
    by (simp add: process_events_def init_state_def)
  show "completion_tokens (process_events init_state
        [UsageEvent (UsageInfo 10 5), UsageEvent (UsageInfo 3 2),
         FinishEvent ''stop'' (Some (UsageInfo 1 1))]) = 8"
    by (simp add: process_events_def init_state_def)
next
  assume "spec_usage_of e = None"
  then show "prompt_tokens (process_event s e) = prompt_tokens s"
    and "completion_tokens (process_event s e) = completion_tokens s"
    by (simp_all add: process_event_prompt process_event_completion)
next
  assume "spec_usage_of e = Some u"
  then show "prompt_tokens (process_event s e) = prompt_tokens s + promptTokens u"
    and "completion_tokens (process_event s e) = completion_tokens s + completionTokens u"
    by (simp_all add: process_event_prompt process_event_completion)
next
  assume "spec_usage_of e = Some u \<and> promptTokens u < 0"
  then show "prompt_tokens (process_event s e) < prompt_tokens s"
    by (simp add: process_event_prompt)
next
  assume "spec_usage_of e = Some u \<and> completionTokens u < 0"
  then show "completion_tokens (process_event s e) < completion_tokens s"
    by (simp add: process_event_completion)
qed

theorem usage_totals_additive_witness:
  "prompt_tokens init_state
       \<le> prompt_tokens (process_events init_state
            [UsageEvent (UsageInfo 10 5), TextEvent ''a'' None,
             FinishEvent ''stop'' (Some (UsageInfo 1 1))])
   \<and> completion_tokens init_state
       \<le> completion_tokens (process_events init_state
            [UsageEvent (UsageInfo 10 5), TextEvent ''a'' None,
             FinishEvent ''stop'' (Some (UsageInfo 1 1))])
   \<and> prompt_tokens (process_event init_state (TextEvent ''a'' None))
       = prompt_tokens init_state
   \<and> prompt_tokens (process_event init_state (FinishEvent ''stop'' (Some (UsageInfo 1 1))))
       = prompt_tokens init_state + promptTokens (UsageInfo 1 1)
   \<and> prompt_tokens (process_event init_state (UsageEvent (UsageInfo (- 5) (- 2))))
       < prompt_tokens init_state
   \<and> completion_tokens (process_event init_state (UsageEvent (UsageInfo (- 5) (- 2))))
       < completion_tokens init_state"
proof -
  have h: "\<forall>e\<in>set [UsageEvent (UsageInfo 10 5), TextEvent ''a'' None,
               FinishEvent ''stop'' (Some (UsageInfo 1 1))].
      \<forall>u. spec_usage_of e = Some u \<longrightarrow> 0 \<le> promptTokens u \<and> 0 \<le> completionTokens u"
    by (simp add: spec_usage_of_def)
  have n: "spec_usage_of (TextEvent ''a'' None) = None"
    by (simp add: spec_usage_of_def)
  have f: "spec_usage_of (FinishEvent ''stop'' (Some (UsageInfo 1 1))) = Some (UsageInfo 1 1)"
    by (simp add: spec_usage_of_def)
  have m: "spec_usage_of (UsageEvent (UsageInfo (- 5) (- 2))) = Some (UsageInfo (- 5) (- 2))
      \<and> promptTokens (UsageInfo (- 5) (- 2)) < 0"
    "spec_usage_of (UsageEvent (UsageInfo (- 5) (- 2))) = Some (UsageInfo (- 5) (- 2))
      \<and> completionTokens (UsageInfo (- 5) (- 2)) < 0"
    by (simp_all add: spec_usage_of_def)
  from h usage_totals_additive [where s = init_state
      and es = "[UsageEvent (UsageInfo 10 5), TextEvent ''a'' None,
        FinishEvent ''stop'' (Some (UsageInfo 1 1))]"]
  have p1: "prompt_tokens init_state
       \<le> prompt_tokens (process_events init_state
            [UsageEvent (UsageInfo 10 5), TextEvent ''a'' None,
             FinishEvent ''stop'' (Some (UsageInfo 1 1))])
   \<and> completion_tokens init_state
       \<le> completion_tokens (process_events init_state
            [UsageEvent (UsageInfo 10 5), TextEvent ''a'' None,
             FinishEvent ''stop'' (Some (UsageInfo 1 1))])"
    by blast
  from n usage_totals_additive [where s = init_state and e = "TextEvent ''a'' None"]
  have p2: "prompt_tokens (process_event init_state (TextEvent ''a'' None))
       = prompt_tokens init_state"
    by blast
  from f usage_totals_additive [where s = init_state
      and e = "FinishEvent ''stop'' (Some (UsageInfo 1 1))" and u = "UsageInfo 1 1"]
  have p3: "prompt_tokens (process_event init_state
        (FinishEvent ''stop'' (Some (UsageInfo 1 1))))
       = prompt_tokens init_state + promptTokens (UsageInfo 1 1)"
    by blast
  from m usage_totals_additive [where s = init_state
      and e = "UsageEvent (UsageInfo (- 5) (- 2))" and u = "UsageInfo (- 5) (- 2)"]
  have p4: "prompt_tokens (process_event init_state (UsageEvent (UsageInfo (- 5) (- 2))))
       < prompt_tokens init_state
   \<and> completion_tokens (process_event init_state (UsageEvent (UsageInfo (- 5) (- 2))))
       < completion_tokens init_state"
    by blast
  from p1 p2 p3 p4 show ?thesis by blast
qed

theorem negative_usage_counterexample:
  "parse_sse_event
     (JObj [(''type'', JStr ''data-usage''),
            (''data'', JObj [(''promptTokens'', JInt (- 5)), (''completionTokens'', JInt (- 2))])])
     = Inr (UsageEvent (UsageInfo (- 5) (- 2)))
   \<and> prompt_tokens (process_event init_state (UsageEvent (UsageInfo (- 5) (- 2))))
       < prompt_tokens init_state
   \<and> completion_tokens (process_event init_state (UsageEvent (UsageInfo (- 5) (- 2))))
       < completion_tokens init_state"
  by (simp add: parse_sse_event_def py_get_default_def EVENT_PARSERS_def parse_usage_event_def
      mk_UsageInfo_def bind_err_def init_state_def)

subsection \<open>Tool-call tracker\<close>

lemma wf_calls_init: "wf_calls (tool_calls init_state)"
  by (simp add: wf_calls_def init_state_def)

lemma wf_calls_update:
  "wf_calls ts \<Longrightarrow> wf_calls (AList.update (tool_call_id tc) tc ts)"
  unfolding wf_calls_def
  by (auto simp: distinct_update update_conv' split: if_splits)

lemma wf_calls_process_event:
  "wf_calls (tool_calls s) \<Longrightarrow> wf_calls (tool_calls (process_event s e))"
  by (cases e) (simp_all add: wf_calls_update Let_def split: option.splits)

lemma wf_calls_process_events:
  "wf_calls (tool_calls s) \<Longrightarrow> wf_calls (tool_calls (process_events s es))"
  by (induction es arbitrary: s)
    (simp_all add: process_events_Nil process_events_Cons wf_calls_process_event)

lemma map_of_process_event_other:
  "\<not> is_tool_call_for i e \<Longrightarrow>
     map_of (tool_calls (process_event s e)) i = map_of (tool_calls s) i"
  by (cases e) (simp_all add: update_conv' Let_def split: option.splits)

lemma map_of_process_events_other:
  "\<forall>e\<in>set es. \<not> is_tool_call_for i e \<Longrightarrow>
     map_of (tool_calls (process_events s es)) i = map_of (tool_calls s) i"
  by (induction es arbitrary: s)
    (simp_all add: process_events_Nil process_events_Cons map_of_process_event_other)

lemma pending_ids_conv:
  assumes "wf_calls (tool_calls s)"
  shows "i \<in> pending_ids s \<longleftrightarrow>
    (\<exists>tc. map_of (tool_calls s) i = Some tc \<and> state tc = ''input-available'')"
proof
  assume "i \<in> pending_ids s"
  then obtain k e where ke: "(k, e) \<in> set (tool_calls s)" "state e = ''input-available''"
    "tool_call_id e = i"
    by (auto simp: pending_ids_def pending_tools_def)
  from ke assms have "map_of (tool_calls s) k = Some e" by (simp add: wf_calls_def)
  with assms ke have "map_of (tool_calls s) i = Some e" by (auto simp: wf_calls_def)
  with ke show "\<exists>tc. map_of (tool_calls s) i = Some tc \<and> state tc = ''input-available''"
    by blast
next
  assume "\<exists>tc. map_of (tool_calls s) i = Some tc \<and> state tc = ''input-available''"
  then obtain tc where tc: "map_of (tool_calls s) i = Some tc" "state tc = ''input-available''"
    by blast
  then have m: "(i, tc) \<in> set (tool_calls s)" by (simp add: map_of_SomeD)
  from assms tc have "tool_call_id tc = i" by (auto simp: wf_calls_def)
  with m tc show "i \<in> pending_ids s"
    by (force simp: pending_ids_def pending_tools_def)
qed

text \<open>The last \<open>ToolCall\<close> event of an id is the one the dictionary holds for it.\<close>

lemma last_tool_call_wins:
  assumes "\<forall>e\<in>set post. \<not> is_tool_call_for (tool_call_id tc) e"
  shows "map_of (tool_calls (process_events s (pre @ ToolCallEvent tc # post)))
           (tool_call_id tc) = Some tc"
proof -
  let ?mid = "process_event (process_events s pre) (ToolCallEvent tc)"
  have "process_events s (pre @ ToolCallEvent tc # post) = process_events ?mid post"
    by (simp add: process_events_append process_events_Cons)
  then have "map_of (tool_calls (process_events s (pre @ ToolCallEvent tc # post)))
      (tool_call_id tc) = map_of (tool_calls ?mid) (tool_call_id tc)"
    using assms by (simp only: map_of_process_events_other)
  then show ?thesis by (simp add: update_conv')
qed

lemma last_tool_call_pending:
  assumes "\<forall>e\<in>set post. \<not> is_tool_call_for (tool_call_id tc) e"
  shows "tool_call_id tc \<in> pending_ids (process_events init_state (pre @ ToolCallEvent tc # post))
           \<longleftrightarrow> state tc = ''input-available''"
proof -
  have wf: "wf_calls (tool_calls (process_events init_state (pre @ ToolCallEvent tc # post)))"
    by (rule wf_calls_process_events) (rule wf_calls_init)
  show ?thesis
    by (simp add: pending_ids_conv [OF wf] last_tool_call_wins [OF assms])
qed

lemma never_called_not_pending:
  assumes "\<forall>e\<in>set es. \<not> is_tool_call_for i e"
  shows "map_of (tool_calls (process_events init_state es)) i = None
           \<and> i \<notin> pending_ids (process_events init_state es)"
proof -
  have wf: "wf_calls (tool_calls (process_events init_state es))"
    by (rule wf_calls_process_events) (rule wf_calls_init)
  have "map_of (tool_calls (process_events init_state es)) i = map_of (tool_calls init_state) i"
    using assms by (rule map_of_process_events_other)
  then have "map_of (tool_calls (process_events init_state es)) i = None"
    by (simp add: init_state_def)
  then show ?thesis by (simp add: pending_ids_conv [OF wf])
qed

text \<open>
  C1. The per-id map is last-write-wins and the pending set is exact: when the event
  \<open>tc\<close> is the most recently processed \<open>ToolCall\<close> event of its id, the map holds \<open>tc\<close>
  for that id, and the id is pending if and only if the state of \<open>tc\<close> is
  \<open>input-available\<close>; an id no \<open>ToolCall\<close> event was processed for is not in the map and
  not pending. So after \<open>started\<close> then \<open>input-available\<close> the id is pending, and a later
  \<open>output-available\<close> for the id removes it from the pending set.
\<close>

theorem tracker_pending_exact:
  "((\<forall>e\<in>set post. \<not> is_tool_call_for (tool_call_id tc) e) \<longrightarrow>
      map_of (tool_calls (process_events init_state (pre @ ToolCallEvent tc # post)))
        (tool_call_id tc) = Some tc
      \<and> (tool_call_id tc \<in> pending_ids (process_events init_state (pre @ ToolCallEvent tc # post))
           \<longleftrightarrow> state tc = ''input-available''))
   \<and> ((\<forall>e\<in>set es. \<not> is_tool_call_for i e) \<longrightarrow>
      map_of (tool_calls (process_events init_state es)) i = None
      \<and> i \<notin> pending_ids (process_events init_state es))"
  using last_tool_call_wins [of post tc init_state pre] last_tool_call_pending [of post tc pre]
    never_called_not_pending [of es i]
  by blast

theorem tracker_pending_exact_witness:
  "''t1'' \<in> pending_ids (process_events init_state
        ([ToolCallEvent \<lparr>tool_call_id = ''t1'', tool_name = Some ''create_bucket'',
            state = ''started'', tool_input = JNull, tool_output = JNull, approval = None\<rparr>]
         @ ToolCallEvent \<lparr>tool_call_id = ''t1'', tool_name = Some ''create_bucket'',
             state = ''input-available'', tool_input = JObj [], tool_output = JNull,
             approval = None\<rparr>
         # [TextEvent ''working'' None]))
   \<and> ''t1'' \<notin> pending_ids (process_events init_state
        ([ToolCallEvent \<lparr>tool_call_id = ''t1'', tool_name = Some ''create_bucket'',
            state = ''started'', tool_input = JNull, tool_output = JNull, approval = None\<rparr>,
          ToolCallEvent \<lparr>tool_call_id = ''t1'', tool_name = Some ''create_bucket'',
            state = ''input-available'', tool_input = JObj [], tool_output = JNull,
            approval = None\<rparr>,
          TextEvent ''working'' None]
         @ ToolCallEvent \<lparr>tool_call_id = ''t1'', tool_name = Some ''create_bucket'',
             state = ''output-available'', tool_input = JNull, tool_output = JStr ''ok'',
             approval = None\<rparr>
         # []))
   \<and> ''t2'' \<notin> pending_ids (process_events init_state [TextEvent ''working'' None])"
  using
    tracker_pending_exact [of "[TextEvent ''working'' None]"
      "\<lparr>tool_call_id = ''t1'', tool_name = Some ''create_bucket'',
         state = ''input-available'', tool_input = JObj [], tool_output = JNull,
         approval = None\<rparr>"
      "[ToolCallEvent \<lparr>tool_call_id = ''t1'', tool_name = Some ''create_bucket'',
          state = ''started'', tool_input = JNull, tool_output = JNull, approval = None\<rparr>]"
      "[TextEvent ''working'' None]" "''t2''"]
    tracker_pending_exact [of "[]"
      "\<lparr>tool_call_id = ''t1'', tool_name = Some ''create_bucket'',
         state = ''output-available'', tool_input = JNull, tool_output = JStr ''ok'',
         approval = None\<rparr>"
      "[ToolCallEvent \<lparr>tool_call_id = ''t1'', tool_name = Some ''create_bucket'',
          state = ''started'', tool_input = JNull, tool_output = JNull, approval = None\<rparr>,
        ToolCallEvent \<lparr>tool_call_id = ''t1'', tool_name = Some ''create_bucket'',
          state = ''input-available'', tool_input = JObj [], tool_output = JNull,
          approval = None\<rparr>,
        TextEvent ''working'' None]"
      "[]" "''t2''"]
  by simp

text \<open>
  C2, as the code has it. The tracker keeps no order of phases: when an
  \<open>output-available\<close> event of an id is followed by a later \<open>ToolCall\<close> event \<open>b\<close> of the
  same id and no \<open>ToolCall\<close> event of that id follows \<open>b\<close>, the id is pending at the end
  exactly when the state of \<open>b\<close> is \<open>input-available\<close>. A late \<open>input-available\<close> record
  therefore makes the call pending again.
\<close>

theorem late_input_available_is_pending:
  assumes "tool_call_id a = tool_call_id b"
    and "state a = ''output-available''"
    and "\<forall>e\<in>set post. \<not> is_tool_call_for (tool_call_id b) e"
  shows "tool_call_id b
           \<in> pending_ids (process_events init_state
               (pre @ ToolCallEvent a # mid @ ToolCallEvent b # post))
         \<longleftrightarrow> state b = ''input-available''"
  using last_tool_call_pending [of post b "pre @ ToolCallEvent a # mid"] assms(3)
  by simp

theorem late_input_available_is_pending_witness:
  "''t1'' \<in> pending_ids (process_events init_state
        ([] @ ToolCallEvent \<lparr>tool_call_id = ''t1'', tool_name = None,
                state = ''output-available'', tool_input = JNull, tool_output = JStr ''done'',
                approval = None\<rparr>
          # [] @ ToolCallEvent \<lparr>tool_call_id = ''t1'', tool_name = None,
                state = ''input-available'', tool_input = JObj [], tool_output = JNull,
                approval = None\<rparr>
          # [StepStartEvent]))"
  using late_input_available_is_pending
    [of "\<lparr>tool_call_id = ''t1'', tool_name = None, state = ''output-available'',
           tool_input = JNull, tool_output = JStr ''done'', approval = None\<rparr>"
        "\<lparr>tool_call_id = ''t1'', tool_name = None, state = ''input-available'',
           tool_input = JObj [], tool_output = JNull, approval = None\<rparr>"
        "[StepStartEvent]" "[]" "[]"]
  by simp

theorem out_of_order_counterexample:
  "''t1'' \<in> pending_ids (process_events init_state
     [ToolCallEvent \<lparr>tool_call_id = ''t1'', tool_name = None, state = ''output-available'',
        tool_input = JNull, tool_output = JStr ''done'', approval = None\<rparr>,
      ToolCallEvent \<lparr>tool_call_id = ''t1'', tool_name = None, state = ''input-available'',
        tool_input = JObj [], tool_output = JNull, approval = None\<rparr>])"
  by (simp add: process_events_def init_state_def pending_ids_def pending_tools_def)

subsection \<open>Stream accumulator\<close>

lemma text_of_process_event:
  "text_of (process_event s e) = text_of s @ (case e of TextEvent t st \<Rightarrow> t | _ \<Rightarrow> [])"
  by (cases e) (simp_all add: text_of_def Let_def split: option.splits)

lemma text_of_process_events:
  "text_of (process_events s es) =
     text_of s @ concat (map (\<lambda>e. case e of TextEvent t st \<Rightarrow> t | _ \<Rightarrow> []) es)"
  by (induction es arbitrary: s)
    (simp_all add: process_events_Nil process_events_Cons text_of_process_event)

lemma finished_process_event: "finished s \<Longrightarrow> finished (process_event s e)"
  by (cases e) (simp_all add: Let_def split: option.splits)

lemma finished_process_events: "finished s \<Longrightarrow> finished (process_events s es)"
  by (induction es arbitrary: s)
    (simp_all add: process_events_Nil process_events_Cons finished_process_event)

lemma process_event_ignores_finished:
  "process_event (s\<lparr>finished := b\<rparr>) e =
     (process_event s e)\<lparr>finished := (case e of FinishEvent r u \<Rightarrow> True | _ \<Rightarrow> b)\<rparr>"
  by (cases e) (simp_all add: Let_def split: option.splits)

text \<open>
  C9, as the code has it. \<^verbatim>\<open>process_event\<close> never reads \<^verbatim>\<open>_finished\<close>: once true, the
  flag stays true under every event and every event sequence, and only \<^verbatim>\<open>reset\<close> clears
  it, giving the initial state. The other fields are not frozen: the state reached by an
  event is the same whatever the flag was (the flag apart). In a finished state a \<open>Text\<close>
  event appends its fragment, a \<open>ToolCall\<close> event upserts the map under its id, a
  \<open>Usage\<close> event adds its two counts, and a \<open>Finish\<close> event overwrites the finish reason
  and adds its embedded usage, if any; each leaves every other field as it was. Events
  that are no \<open>Text\<close>, \<open>ToolCall\<close>, \<open>Usage\<close> or \<open>Finish\<close> event leave the state
  unchanged.
\<close>

theorem finished_stays_but_state_not_frozen:
  "(finished s \<longrightarrow> finished (process_event s e))
   \<and> (finished s \<longrightarrow> finished (process_events s es))
   \<and> process_event (s\<lparr>finished := b\<rparr>) e =
       (process_event s e)\<lparr>finished := (case e of FinishEvent r u \<Rightarrow> True | _ \<Rightarrow> b)\<rparr>
   \<and> accumulated_text (process_event s (TextEvent t st)) = accumulated_text s @ [t]
   \<and> ((case e of TextEvent t st \<Rightarrow> False | ToolCallEvent tc \<Rightarrow> False
          | UsageEvent u \<Rightarrow> False | FinishEvent r u \<Rightarrow> False | _ \<Rightarrow> True)
        \<longrightarrow> process_event s e = s)
   \<and> reset s = init_state
   \<and> (finished s \<longrightarrow>
        process_event s (TextEvent t st) = s\<lparr>accumulated_text := accumulated_text s @ [t]\<rparr>)
   \<and> (finished s \<longrightarrow>
        process_event s (ToolCallEvent tc) =
          s\<lparr>tool_calls := AList.update (tool_call_id tc) tc (tool_calls s)\<rparr>
        \<and> map_of (tool_calls (process_event s (ToolCallEvent tc)))
            = (map_of (tool_calls s))(tool_call_id tc \<mapsto> tc))
   \<and> (finished s \<longrightarrow>
        process_event s (UsageEvent u) =
          s\<lparr>prompt_tokens := prompt_tokens s + promptTokens u,
            completion_tokens := completion_tokens s + completionTokens u\<rparr>)
   \<and> (finished s \<longrightarrow> process_event s (FinishEvent r None) = s\<lparr>finish_reason := Some r\<rparr>)
   \<and> (finished s \<longrightarrow>
        process_event s (FinishEvent r (Some u)) =
          s\<lparr>finish_reason := Some r,
            prompt_tokens := prompt_tokens s + promptTokens u,
            completion_tokens := completion_tokens s + completionTokens u\<rparr>)"
proof (intro conjI impI)
  show "process_event (s\<lparr>finished := b\<rparr>) e =
       (process_event s e)\<lparr>finished := (case e of FinishEvent r u \<Rightarrow> True | _ \<Rightarrow> b)\<rparr>"
    by (rule process_event_ignores_finished)
  show "accumulated_text (process_event s (TextEvent t st)) = accumulated_text s @ [t]"
    by simp
  show "reset s = init_state"
    by (simp add: reset_def init_state_def)
next
  assume "finished s"
  then show "finished (process_event s e)" by (rule finished_process_event)
next
  assume "finished s"
  then show "finished (process_events s es)" by (rule finished_process_events)
next
  assume "case e of TextEvent t st \<Rightarrow> False | ToolCallEvent tc \<Rightarrow> False
          | UsageEvent u \<Rightarrow> False | FinishEvent r u \<Rightarrow> False | _ \<Rightarrow> True"
  then show "process_event s e = s" by (cases e) simp_all
next
  show "process_event s (TextEvent t st) = s\<lparr>accumulated_text := accumulated_text s @ [t]\<rparr>"
    by simp
  show "process_event s (ToolCallEvent tc) =
          s\<lparr>tool_calls := AList.update (tool_call_id tc) tc (tool_calls s)\<rparr>"
    by simp
  show "map_of (tool_calls (process_event s (ToolCallEvent tc)))
            = (map_of (tool_calls s))(tool_call_id tc \<mapsto> tc)"
    by (simp add: update_conv')
  show "process_event s (UsageEvent u) =
          s\<lparr>prompt_tokens := prompt_tokens s + promptTokens u,
            completion_tokens := completion_tokens s + completionTokens u\<rparr>"
    by simp
next
  assume "finished s"
  then show "process_event s (FinishEvent r None) = s\<lparr>finish_reason := Some r\<rparr>"
    by simp
next
  assume "finished s"
  then show "process_event s (FinishEvent r (Some u)) =
          s\<lparr>finish_reason := Some r,
            prompt_tokens := prompt_tokens s + promptTokens u,
            completion_tokens := completion_tokens s + completionTokens u\<rparr>"
    by simp
qed

theorem finished_stays_but_state_not_frozen_witness:
  "finished (process_event (process_event init_state (FinishEvent ''stop'' None))
      (TextEvent ''late'' None))
   \<and> finished (process_events (process_event init_state (FinishEvent ''stop'' None))
       [TextEvent ''late'' None, UsageEvent (UsageInfo 1 2)])
   \<and> process_event (process_event init_state (FinishEvent ''stop'' None)) StepStartEvent
       = process_event init_state (FinishEvent ''stop'' None)
   \<and> accumulated_text (process_event (process_event init_state (FinishEvent ''stop'' None))
       (TextEvent ''late'' None)) = [''late'']
   \<and> map_of (tool_calls (process_event (process_event init_state (FinishEvent ''stop'' None))
       (ToolCallEvent \<lparr>tool_call_id = ''t1'', tool_name = None, state = ''input-available'',
          tool_input = JNull, tool_output = JNull, approval = None\<rparr>))) ''t1''
       = Some \<lparr>tool_call_id = ''t1'', tool_name = None, state = ''input-available'',
          tool_input = JNull, tool_output = JNull, approval = None\<rparr>
   \<and> prompt_tokens (process_event (process_event init_state (FinishEvent ''stop'' None))
       (UsageEvent (UsageInfo 1 2))) = 1
   \<and> finish_reason (process_event (process_event init_state (FinishEvent ''stop'' None))
       (FinishEvent ''length'' None)) = Some ''length''
   \<and> completion_tokens (process_event (process_event init_state (FinishEvent ''stop'' None))
       (FinishEvent ''length'' (Some (UsageInfo 1 2)))) = 2"
proof -
  let ?s = "process_event init_state (FinishEvent ''stop'' None)"
  let ?tc = "\<lparr>tool_call_id = ''t1'', tool_name = None, state = ''input-available'',
          tool_input = JNull, tool_output = JNull, approval = None\<rparr>"
  have f: "finished ?s"
    by simp
  have i: "case StepStartEvent of TextEvent t st \<Rightarrow> False | ToolCallEvent tc \<Rightarrow> False
          | UsageEvent u \<Rightarrow> False | FinishEvent r u \<Rightarrow> False | _ \<Rightarrow> True"
    by simp
  note t = finished_stays_but_state_not_frozen
      [where s = ?s and e = "TextEvent ''late'' None"
        and es = "[TextEvent ''late'' None, UsageEvent (UsageInfo 1 2)]"
        and t = "''late''" and st = None and tc = ?tc and u = "UsageInfo 1 2"
        and r = "''length''"]
  note t' = finished_stays_but_state_not_frozen [where s = ?s and e = StepStartEvent]
  from f t have p1: "finished (process_event ?s (TextEvent ''late'' None))"
    and p2: "finished (process_events ?s [TextEvent ''late'' None, UsageEvent (UsageInfo 1 2)])"
    by blast+
  from i t' have p3: "process_event ?s StepStartEvent = ?s"
    by blast
  from f t have "process_event ?s (TextEvent ''late'' None)
      = ?s\<lparr>accumulated_text := accumulated_text ?s @ [''late'']\<rparr>"
    by blast
  then have p4: "accumulated_text (process_event ?s (TextEvent ''late'' None)) = [''late'']"
    by (simp add: init_state_def)
  from f t have "map_of (tool_calls (process_event ?s (ToolCallEvent ?tc)))
      = (map_of (tool_calls ?s))(tool_call_id ?tc \<mapsto> ?tc)"
    by blast
  then have p5: "map_of (tool_calls (process_event ?s (ToolCallEvent ?tc))) ''t1'' = Some ?tc"
    by simp
  from f t have "process_event ?s (UsageEvent (UsageInfo 1 2))
      = ?s\<lparr>prompt_tokens := prompt_tokens ?s + promptTokens (UsageInfo 1 2),
           completion_tokens := completion_tokens ?s + completionTokens (UsageInfo 1 2)\<rparr>"
    by blast
  then have p6: "prompt_tokens (process_event ?s (UsageEvent (UsageInfo 1 2))) = 1"
    by (simp add: init_state_def)
  from f t have "process_event ?s (FinishEvent ''length'' None)
      = ?s\<lparr>finish_reason := Some ''length''\<rparr>"
    by blast
  then have p7: "finish_reason (process_event ?s (FinishEvent ''length'' None))
      = Some ''length''"
    by simp
  from f t have "process_event ?s (FinishEvent ''length'' (Some (UsageInfo 1 2)))
      = ?s\<lparr>finish_reason := Some ''length'',
           prompt_tokens := prompt_tokens ?s + promptTokens (UsageInfo 1 2),
           completion_tokens := completion_tokens ?s + completionTokens (UsageInfo 1 2)\<rparr>"
    by blast
  then have p8: "completion_tokens
      (process_event ?s (FinishEvent ''length'' (Some (UsageInfo 1 2)))) = 2"
    by (simp add: init_state_def)
  from p1 p2 p3 p4 p5 p6 p7 p8 show ?thesis by blast
qed

theorem state_after_finish_counterexample:
  "finished (process_event init_state (FinishEvent ''stop'' None))
   \<and> accumulated_text
        (process_event (process_event init_state (FinishEvent ''stop'' None))
           (TextEvent ''late'' None))
       \<noteq> accumulated_text (process_event init_state (FinishEvent ''stop'' None))
   \<and> prompt_tokens
        (process_event (process_event init_state (FinishEvent ''stop'' None))
           (UsageEvent (UsageInfo 3 2)))
       \<noteq> prompt_tokens (process_event init_state (FinishEvent ''stop'' None))"
  by (simp add: init_state_def)

subsection \<open>Dialect normalizer\<close>

lemma py_get_default_Some: "map_of d k = Some v \<Longrightarrow> py_get_default d k dflt = v"
  by (simp add: py_get_default_def)

lemma py_get_default_None: "map_of d k = None \<Longrightarrow> py_get_default d k dflt = dflt"
  by (simp add: py_get_default_def)

lemma parse_sse_event_known:
  "map_of d ''type'' = Some (JStr t) \<Longrightarrow> map_of EVENT_PARSERS t = Some parser \<Longrightarrow>
     parse_sse_event (JObj d) = parser d"
  by (simp add: parse_sse_event_def py_get_default_Some)

lemma parse_sse_event_text:
  assumes "map_of d ''type'' = Some (JStr ''text'')"
    and "map_of d ''text'' = Some (JStr t)"
    and "as_opt_str (py_get d ''state'') = Inr st"
  shows "parse_sse_event (JObj d) = Inr (TextEvent t st)"
proof -
  have "parse_sse_event (JObj d) = parse_text_event d"
    using assms(1) by (rule parse_sse_event_known) (simp add: EVENT_PARSERS_def)
  then show ?thesis
    using assms(2,3)
    by (simp add: parse_text_event_def mk_TextEvent_def bind_err_def py_get_default_Some)
qed

lemma parse_sse_event_text_delta:
  assumes "map_of d ''type'' = Some (JStr ''text-delta'')"
    and "map_of d ''delta'' = Some (JStr t)"
    and "as_opt_str (py_get d ''state'') = Inr st"
  shows "parse_sse_event (JObj d) = Inr (TextEvent t st)"
proof -
  have "parse_sse_event (JObj d) = parse_text_delta_event d"
    using assms(1) by (rule parse_sse_event_known) (simp add: EVENT_PARSERS_def)
  then show ?thesis
    using assms(2,3)
    by (simp add: parse_text_delta_event_def mk_TextEvent_def bind_err_def py_get_default_Some)
qed

text \<open>
  C7. The accumulated text is the concatenation, in delivery order, of the fragments of
  the \<open>Text\<close> events, each once, and events of other kinds contribute nothing. A record
  of type \<open>text\<close> normalizes to the \<open>Text\<close> event of its \<open>text\<close> field, one of type
  \<open>text-delta\<close> to the \<open>Text\<close> event of its \<open>delta\<close> field.
\<close>

theorem text_is_concatenation_of_fragments:
  "text_of (process_events s es) =
     text_of s @ concat (map (\<lambda>e. case e of TextEvent t st \<Rightarrow> t | _ \<Rightarrow> []) es)
   \<and> text_of (process_events init_state es) =
       concat (map (\<lambda>e. case e of TextEvent t st \<Rightarrow> t | _ \<Rightarrow> []) es)
   \<and> (map_of d ''type'' = Some (JStr ''text'') \<and> map_of d ''text'' = Some (JStr t)
        \<and> as_opt_str (py_get d ''state'') = Inr st
      \<longrightarrow> parse_sse_event (JObj d) = Inr (TextEvent t st))
   \<and> (map_of d ''type'' = Some (JStr ''text-delta'') \<and> map_of d ''delta'' = Some (JStr t)
        \<and> as_opt_str (py_get d ''state'') = Inr st
      \<longrightarrow> parse_sse_event (JObj d) = Inr (TextEvent t st))"
proof (intro conjI impI)
  show "text_of (process_events s es) =
     text_of s @ concat (map (\<lambda>e. case e of TextEvent t st \<Rightarrow> t | _ \<Rightarrow> []) es)"
    by (rule text_of_process_events)
  show "text_of (process_events init_state es) =
       concat (map (\<lambda>e. case e of TextEvent t st \<Rightarrow> t | _ \<Rightarrow> []) es)"
    by (simp add: text_of_process_events) (simp add: text_of_def init_state_def)
next
  assume "map_of d ''type'' = Some (JStr ''text'') \<and> map_of d ''text'' = Some (JStr t)
        \<and> as_opt_str (py_get d ''state'') = Inr st"
  then show "parse_sse_event (JObj d) = Inr (TextEvent t st)"
    by (simp add: parse_sse_event_text)
next
  assume "map_of d ''type'' = Some (JStr ''text-delta'') \<and> map_of d ''delta'' = Some (JStr t)
        \<and> as_opt_str (py_get d ''state'') = Inr st"
  then show "parse_sse_event (JObj d) = Inr (TextEvent t st)"
    by (simp add: parse_sse_event_text_delta)
qed

theorem text_is_concatenation_of_fragments_witness:
  "parse_sse_event (JObj [(''type'', JStr ''text''), (''text'', JStr ''Hello '')])
     = Inr (TextEvent ''Hello '' None)
   \<and> parse_sse_event
       (JObj [(''type'', JStr ''text-delta''), (''delta'', JStr ''world!''),
              (''state'', JStr ''streaming'')])
     = Inr (TextEvent ''world!'' (Some ''streaming''))
   \<and> text_of (process_events init_state
       [TextEvent ''Hello '' None, StepStartEvent, TextEvent ''world!'' (Some ''streaming'')])
     = ''Hello world!''"
proof -
  have a: "map_of [(''type'', JStr ''text''), (''text'', JStr ''Hello '')] ''type''
        = Some (JStr ''text'')
      \<and> map_of [(''type'', JStr ''text''), (''text'', JStr ''Hello '')] ''text''
        = Some (JStr ''Hello '')
      \<and> as_opt_str (py_get [(''type'', JStr ''text''), (''text'', JStr ''Hello '')] ''state'')
        = Inr None"
    by (simp add: py_get_def)
  have b: "map_of [(''type'', JStr ''text-delta''), (''delta'', JStr ''world!''),
              (''state'', JStr ''streaming'')] ''type'' = Some (JStr ''text-delta'')
      \<and> map_of [(''type'', JStr ''text-delta''), (''delta'', JStr ''world!''),
              (''state'', JStr ''streaming'')] ''delta'' = Some (JStr ''world!'')
      \<and> as_opt_str (py_get [(''type'', JStr ''text-delta''), (''delta'', JStr ''world!''),
              (''state'', JStr ''streaming'')] ''state'') = Inr (Some ''streaming'')"
    by (simp add: py_get_def)
  have c: "concat (map (\<lambda>e. case e of TextEvent t st \<Rightarrow> t | _ \<Rightarrow> [])
      [TextEvent ''Hello '' None, StepStartEvent, TextEvent ''world!'' (Some ''streaming'')])
      = ''Hello world!''"
    by simp
  note t1 = text_is_concatenation_of_fragments
      [of init_state
          "[TextEvent ''Hello '' None, StepStartEvent, TextEvent ''world!'' (Some ''streaming'')]"
          "[(''type'', JStr ''text''), (''text'', JStr ''Hello '')]" "''Hello ''" None]
  note t2 = text_is_concatenation_of_fragments
      [of init_state "[]"
          "[(''type'', JStr ''text-delta''), (''delta'', JStr ''world!''),
            (''state'', JStr ''streaming'')]" "''world!''" "Some ''streaming''"]
  have p1: "parse_sse_event (JObj [(''type'', JStr ''text''), (''text'', JStr ''Hello '')])
     = Inr (TextEvent ''Hello '' None)"
    using a t1 by blast
  have p2: "parse_sse_event
       (JObj [(''type'', JStr ''text-delta''), (''delta'', JStr ''world!''),
              (''state'', JStr ''streaming'')])
     = Inr (TextEvent ''world!'' (Some ''streaming''))"
    using b t2 by blast
  have "text_of (process_events init_state
       [TextEvent ''Hello '' None, StepStartEvent, TextEvent ''world!'' (Some ''streaming'')])
     = concat (map (\<lambda>e. case e of TextEvent t st \<Rightarrow> t | _ \<Rightarrow> [])
      [TextEvent ''Hello '' None, StepStartEvent, TextEvent ''world!'' (Some ''streaming'')])"
    using t1 by blast
  with c have p3: "text_of (process_events init_state
       [TextEvent ''Hello '' None, StepStartEvent, TextEvent ''world!'' (Some ''streaming'')])
     = ''Hello world!''"
    by (simp only:)
  from p1 p2 p3 show ?thesis by blast
qed

lemma parse_sse_event_finish:
  assumes "map_of d ''type'' = Some (JStr ty)" and "ty = ''finish'' \<or> ty = ''finish-step''"
  shows "parse_sse_event (JObj d) = parse_finish_event d"
  using assms(2)
proof
  assume "ty = ''finish''"
  with assms(1) show ?thesis
    by (intro parse_sse_event_known [of d "''finish''"]) (simp_all add: EVENT_PARSERS_def)
next
  assume "ty = ''finish-step''"
  with assms(1) show ?thesis
    by (intro parse_sse_event_known [of d "''finish-step''"]) (simp_all add: EVENT_PARSERS_def)
qed

lemma parse_finish_event_no_reason:
  assumes "map_of d ''finishReason'' = None"
  shows "parse_finish_event d =
     bind_err (as_opt_usage (if truthy (py_get d ''usage'') then py_get d ''usage'' else JNull))
       (\<lambda>u. Inr (FinishEvent ''stop'' u))"
  using assms
  by (simp add: parse_finish_event_def mk_FinishEvent_def bind_err_def py_get_default_None
      Let_def)

text \<open>
  C10. A record of type \<open>finish\<close> or \<open>finish-step\<close> without a \<open>finishReason\<close> entry
  normalizes to the \<open>Finish\<close> event with reason \<open>stop\<close> (with the embedded usage record
  the constructor accepts, if any), never to an event without a reason; after the
  accumulator processes it, \<open>finished\<close> is true and \<open>finish_reason\<close> is \<open>stop\<close>.
\<close>

theorem finish_reason_defaults_to_stop:
  assumes "map_of d ''type'' = Some (JStr ty)"
    and "ty = ''finish'' \<or> ty = ''finish-step''"
    and "map_of d ''finishReason'' = None"
  shows "(\<forall>u. as_opt_usage (if truthy (py_get d ''usage'') then py_get d ''usage'' else JNull)
              = Inr u
            \<longrightarrow> parse_sse_event (JObj d) = Inr (FinishEvent ''stop'' u)
              \<and> finish_reason (process_event s (FinishEvent ''stop'' u)) = Some ''stop''
              \<and> finished (process_event s (FinishEvent ''stop'' u)))
         \<and> (\<forall>e. parse_sse_event (JObj d) = Inr e \<longrightarrow> (\<exists>u. e = FinishEvent ''stop'' u))"
proof -
  have eq: "parse_sse_event (JObj d) =
     bind_err (as_opt_usage (if truthy (py_get d ''usage'') then py_get d ''usage'' else JNull))
       (\<lambda>u. Inr (FinishEvent ''stop'' u))"
    using parse_sse_event_finish [OF assms(1,2)] parse_finish_event_no_reason [OF assms(3)]
    by simp
  have fr: "finish_reason (process_event s (FinishEvent ''stop'' u)) = Some ''stop''
      \<and> finished (process_event s (FinishEvent ''stop'' u))" for u
    by (cases u) (simp_all add: Let_def)
  show ?thesis
    unfolding eq using fr by (auto simp: bind_err_def split: sum.splits)
qed

theorem finish_reason_defaults_to_stop_witness:
  "parse_sse_event (JObj [(''type'', JStr ''finish-step'')]) = Inr (FinishEvent ''stop'' None)
   \<and> finish_reason (process_event init_state (FinishEvent ''stop'' None)) = Some ''stop''
   \<and> parse_sse_event
       (JObj [(''type'', JStr ''finish''),
              (''usage'', JObj [(''promptTokens'', JInt 1), (''completionTokens'', JInt 1)])])
     = Inr (FinishEvent ''stop'' (Some (UsageInfo 1 1)))"
proof -
  have a: "map_of [(''type'', JStr ''finish-step'')] ''type'' = Some (JStr ''finish-step'')"
    "''finish-step'' = ''finish'' \<or> ''finish-step'' = ''finish-step''"
    "map_of [(''type'', JStr ''finish-step'')] ''finishReason'' = None"
    by simp_all
  have ua: "as_opt_usage (if truthy (py_get [(''type'', JStr ''finish-step'')] ''usage'')
       then py_get [(''type'', JStr ''finish-step'')] ''usage'' else JNull) = Inr None"
    by (simp add: py_get_def)
  have b: "map_of [(''type'', JStr ''finish''),
              (''usage'', JObj [(''promptTokens'', JInt 1), (''completionTokens'', JInt 1)])]
             ''type'' = Some (JStr ''finish'')"
    "''finish'' = ''finish'' \<or> ''finish'' = ''finish-step''"
    "map_of [(''type'', JStr ''finish''),
              (''usage'', JObj [(''promptTokens'', JInt 1), (''completionTokens'', JInt 1)])]
             ''finishReason'' = None"
    by simp_all
  have ub: "as_opt_usage
      (if truthy (py_get [(''type'', JStr ''finish''),
              (''usage'', JObj [(''promptTokens'', JInt 1), (''completionTokens'', JInt 1)])]
             ''usage'')
       then py_get [(''type'', JStr ''finish''),
              (''usage'', JObj [(''promptTokens'', JInt 1), (''completionTokens'', JInt 1)])]
             ''usage''
       else JNull) = Inr (Some (UsageInfo 1 1))"
    by (simp add: py_get_def mk_UsageInfo_def bind_err_def)
  from finish_reason_defaults_to_stop [OF a, of init_state] ua
  have p1: "parse_sse_event (JObj [(''type'', JStr ''finish-step'')])
      = Inr (FinishEvent ''stop'' None)
    \<and> finish_reason (process_event init_state (FinishEvent ''stop'' None)) = Some ''stop''"
    by blast
  from finish_reason_defaults_to_stop [OF b, of init_state] ub
  have p2: "parse_sse_event
       (JObj [(''type'', JStr ''finish''),
              (''usage'', JObj [(''promptTokens'', JInt 1), (''completionTokens'', JInt 1)])])
     = Inr (FinishEvent ''stop'' (Some (UsageInfo 1 1)))"
    by blast
  from p1 p2 show ?thesis by blast
qed

lemma parse_approval_None_iff:
  "parse_approval d = Inr None \<longleftrightarrow>
     \<not> (\<exists>kvs. map_of d ''approval'' = Some (JObj kvs) \<and> kvs \<noteq> []
            \<and> map_of kvs ''id'' \<noteq> None)"
  by (auto simp: parse_approval_def py_get_def Let_def bind_err_def
      split: option.splits json.splits sum.splits)

lemma parse_approval_Some:
  assumes "map_of d ''approval'' = Some (JObj kvs)"
    and "map_of kvs ''id'' = Some (JStr i)"
    and "as_opt_bool (py_get kvs ''approved'') = Inr ap"
    and "as_opt_str (py_get kvs ''reason'') = Inr rs"
  shows "parse_approval d = Inr (Some \<lparr>aid = i, approved = ap, reason = rs\<rparr>)"
proof -
  from assms(2) have "kvs \<noteq> []" by auto
  with assms show ?thesis
    by (simp add: parse_approval_def py_get_def [of d] Let_def mk_ToolApproval_def bind_err_def)
qed

lemma mk_ToolCallEvent_approval:
  "mk_ToolCallEvent i n s inp outp ap = Inr (ToolCallEvent tc) \<Longrightarrow> approval tc = ap"
  by (auto simp: mk_ToolCallEvent_def bind_err_def split: sum.splits)

lemma mk_ToolCallEvent_is_ToolCall:
  "mk_ToolCallEvent i n s inp outp ap = Inr e \<Longrightarrow> \<exists>tc. e = ToolCallEvent tc"
  by (auto simp: mk_ToolCallEvent_def bind_err_def split: sum.splits)

lemma parse_tool_call_event_approval:
  "parse_tool_call_event d = Inr (ToolCallEvent tc) \<Longrightarrow> parse_approval d = Inr (approval tc)"
  by (auto simp: parse_tool_call_event_def bind_err_def split: sum.splits
      dest: mk_ToolCallEvent_approval)

lemma parse_tool_input_available_event_approval:
  "parse_tool_input_available_event d = Inr (ToolCallEvent tc) \<Longrightarrow>
     parse_approval d = Inr (approval tc)"
  by (auto simp: parse_tool_input_available_event_def bind_err_def split: sum.splits
      dest: mk_ToolCallEvent_approval)

lemma parse_tool_input_start_event_approval:
  "parse_tool_input_start_event d = Inr (ToolCallEvent tc) \<Longrightarrow> approval tc = None"
  by (auto simp: parse_tool_input_start_event_def dest: mk_ToolCallEvent_approval)

lemma parse_tool_output_available_event_approval:
  "parse_tool_output_available_event d = Inr (ToolCallEvent tc) \<Longrightarrow> approval tc = None"
  by (auto simp: parse_tool_output_available_event_def dest: mk_ToolCallEvent_approval)

text \<open>The four wire types that give a \<open>ToolCall\<close> event.\<close>

lemma parse_sse_event_ToolCall_cases:
  assumes "parse_sse_event (JObj d) = Inr (ToolCallEvent tc)"
  shows "(map_of d ''type'' = Some (JStr ''tool-call'')
            \<and> parse_tool_call_event d = Inr (ToolCallEvent tc))
       \<or> (map_of d ''type'' = Some (JStr ''tool-input-available'')
            \<and> parse_tool_input_available_event d = Inr (ToolCallEvent tc))
       \<or> (map_of d ''type'' = Some (JStr ''tool-input-start'')
            \<and> parse_tool_input_start_event d = Inr (ToolCallEvent tc))
       \<or> (map_of d ''type'' = Some (JStr ''tool-output-available'')
            \<and> parse_tool_output_available_event d = Inr (ToolCallEvent tc))"
proof (cases "map_of d ''type''")
  case None
  with assms show ?thesis
    by (simp add: parse_sse_event_def py_get_default_def EVENT_PARSERS_def mk_UnknownEvent_def
        bind_err_def)
next
  case (Some v)
  show ?thesis
  proof (cases v)
    case (JStr t)
    with Some assms have r: "(case map_of EVENT_PARSERS t of
        Some parser \<Rightarrow> parser d | None \<Rightarrow> mk_UnknownEvent (JStr t) d) = Inr (ToolCallEvent tc)"
      by (simp add: parse_sse_event_def py_get_default_def)
    have other:
      "parse_text_event d \<noteq> Inr (ToolCallEvent tc)"
      "parse_text_delta_event d \<noteq> Inr (ToolCallEvent tc)"
      "parse_step_start_event d \<noteq> Inr (ToolCallEvent tc)"
      "parse_tool_output_error_event d \<noteq> Inr (ToolCallEvent tc)"
      "parse_tool_approval_request_event d \<noteq> Inr (ToolCallEvent tc)"
      "parse_usage_event d \<noteq> Inr (ToolCallEvent tc)"
      "parse_finish_event d \<noteq> Inr (ToolCallEvent tc)"
      "parse_error_event d \<noteq> Inr (ToolCallEvent tc)"
      "mk_UnknownEvent (JStr t) d \<noteq> Inr (ToolCallEvent tc)"
      by (auto simp: parse_text_event_def parse_text_delta_event_def parse_step_start_event_def
          parse_tool_output_error_event_def parse_tool_approval_request_event_def
          parse_usage_event_def parse_finish_event_def parse_error_event_def
          mk_TextEvent_def mk_ToolOutputErrorEvent_def mk_ToolApprovalRequestEvent_def
          mk_UsageInfo_def mk_FinishEvent_def mk_ErrorEvent_def mk_UnknownEvent_def
          bind_err_def Let_def split: sum.splits json.splits)
    from r other Some JStr show ?thesis
      by (simp add: EVENT_PARSERS_def split: if_splits)
  qed (use Some assms in \<open>simp_all add: parse_sse_event_def py_get_default_def
        mk_UnknownEvent_def bind_err_def\<close>)
qed

text \<open>
  C6, as the code has it. \<^verbatim>\<open>_parse_approval\<close> tests that the \<open>approval\<close> entry is a
  non-empty mapping with the key \<open>id\<close>, not what the value of \<open>id\<close> is: it returns no
  approval exactly when that test fails; when the test holds and the values have the
  fields' types, it returns the approval with that id, the empty string included. A
  \<open>ToolCall\<close> event the normalizer returns carries an approval exactly when the record's
  type is \<open>tool-call\<close> or \<open>tool-input-available\<close> and the test holds.
\<close>

theorem approval_attached_iff_id_key_present:
  "(parse_approval d = Inr None \<longleftrightarrow>
      \<not> (\<exists>kvs. map_of d ''approval'' = Some (JObj kvs) \<and> kvs \<noteq> []
             \<and> map_of kvs ''id'' \<noteq> None))
   \<and> (map_of d ''approval'' = Some (JObj kvs) \<and> map_of kvs ''id'' = Some (JStr i)
        \<and> as_opt_bool (py_get kvs ''approved'') = Inr ap
        \<and> as_opt_str (py_get kvs ''reason'') = Inr rs
      \<longrightarrow> parse_approval d = Inr (Some \<lparr>aid = i, approved = ap, reason = rs\<rparr>))
   \<and> (parse_sse_event (JObj d) = Inr (ToolCallEvent tc)
      \<longrightarrow> (approval tc \<noteq> None \<longleftrightarrow>
            (map_of d ''type'' = Some (JStr ''tool-call'')
               \<or> map_of d ''type'' = Some (JStr ''tool-input-available''))
            \<and> (\<exists>kvs. map_of d ''approval'' = Some (JObj kvs) \<and> kvs \<noteq> []
                  \<and> map_of kvs ''id'' \<noteq> None)))"
proof (intro conjI impI)
  show "parse_approval d = Inr None \<longleftrightarrow>
      \<not> (\<exists>kvs. map_of d ''approval'' = Some (JObj kvs) \<and> kvs \<noteq> []
             \<and> map_of kvs ''id'' \<noteq> None)"
    by (rule parse_approval_None_iff)
next
  assume "map_of d ''approval'' = Some (JObj kvs) \<and> map_of kvs ''id'' = Some (JStr i)
        \<and> as_opt_bool (py_get kvs ''approved'') = Inr ap
        \<and> as_opt_str (py_get kvs ''reason'') = Inr rs"
  then show "parse_approval d = Inr (Some \<lparr>aid = i, approved = ap, reason = rs\<rparr>)"
    by (simp add: parse_approval_Some)
next
  assume ev: "parse_sse_event (JObj d) = Inr (ToolCallEvent tc)"
  let ?guard = "\<exists>kvs. map_of d ''approval'' = Some (JObj kvs) \<and> kvs \<noteq> []
                  \<and> map_of kvs ''id'' \<noteq> None"
  from parse_sse_event_ToolCall_cases [OF ev]
  consider
      (call) "map_of d ''type'' = Some (JStr ''tool-call'')"
        "parse_approval d = Inr (approval tc)"
    | (avail) "map_of d ''type'' = Some (JStr ''tool-input-available'')"
        "parse_approval d = Inr (approval tc)"
    | (start) "map_of d ''type'' = Some (JStr ''tool-input-start'')" "approval tc = None"
    | (out) "map_of d ''type'' = Some (JStr ''tool-output-available'')" "approval tc = None"
    by (auto dest: parse_tool_call_event_approval parse_tool_input_available_event_approval
        parse_tool_input_start_event_approval parse_tool_output_available_event_approval)
  then show "approval tc \<noteq> None \<longleftrightarrow>
            (map_of d ''type'' = Some (JStr ''tool-call'')
               \<or> map_of d ''type'' = Some (JStr ''tool-input-available''))
            \<and> ?guard"
  proof cases
    case call
    from call(2) parse_approval_None_iff [of d] have "approval tc = None \<longleftrightarrow> \<not> ?guard"
      by simp
    with call(1) show ?thesis by simp
  next
    case avail
    from avail(2) parse_approval_None_iff [of d] have "approval tc = None \<longleftrightarrow> \<not> ?guard"
      by simp
    with avail(1) show ?thesis by simp
  next
    case start
    then show ?thesis by simp
  next
    case out
    then show ?thesis by simp
  qed
qed

lemma tool_call_with_ticket:
  "parse_sse_event
     (JObj [(''type'', JStr ''tool-call''), (''toolCallId'', JStr ''t7''),
            (''state'', JStr ''input-available''),
            (''approval'', JObj [(''id'', JStr ''apr-1'')])])
   = Inr (ToolCallEvent \<lparr>tool_call_id = ''t7'', tool_name = None,
            state = ''input-available'', tool_input = JNull, tool_output = JNull,
            approval = Some \<lparr>aid = ''apr-1'', approved = None, reason = None\<rparr>\<rparr>)"
  by (simp add: parse_sse_event_def py_get_default_def EVENT_PARSERS_def
      parse_tool_call_event_def parse_approval_def py_get_def mk_ToolApproval_def
      mk_ToolCallEvent_def bind_err_def)

theorem approval_attached_iff_id_key_present_witness:
  "parse_approval [(''approval'', JObj [(''id'', JStr ''''), (''approved'', JBool False)])]
     = Inr (Some \<lparr>aid = '''', approved = Some False, reason = None\<rparr>)
   \<and> parse_approval [(''approval'', JObj [(''approved'', JBool True)])] = Inr None
   \<and> (\<exists>kvs. map_of [(''type'', JStr ''tool-call''), (''toolCallId'', JStr ''t7''),
                (''state'', JStr ''input-available''),
                (''approval'', JObj [(''id'', JStr ''apr-1'')])] ''approval''
              = Some (JObj kvs) \<and> kvs \<noteq> [] \<and> map_of kvs ''id'' \<noteq> None)"
proof -
  have a: "map_of [(''approval'', JObj [(''id'', JStr ''''), (''approved'', JBool False)])]
        ''approval'' = Some (JObj [(''id'', JStr ''''), (''approved'', JBool False)])
      \<and> map_of [(''id'', JStr ''''), (''approved'', JBool False)] ''id'' = Some (JStr '''')
      \<and> as_opt_bool (py_get [(''id'', JStr ''''), (''approved'', JBool False)] ''approved'')
          = Inr (Some False)
      \<and> as_opt_str (py_get [(''id'', JStr ''''), (''approved'', JBool False)] ''reason'')
          = Inr None"
    by (simp add: py_get_def)
  have b: "\<not> (\<exists>kvs. map_of [(''approval'', JObj [(''approved'', JBool True)])] ''approval''
          = Some (JObj kvs) \<and> kvs \<noteq> [] \<and> map_of kvs ''id'' \<noteq> None)"
    by simp
  have c: "approval \<lparr>tool_call_id = ''t7'', tool_name = None,
            state = ''input-available'', tool_input = JNull, tool_output = JNull,
            approval = Some \<lparr>aid = ''apr-1'', approved = None, reason = None\<rparr>\<rparr> \<noteq> None"
    by simp
  from a approval_attached_iff_id_key_present
      [of "[(''approval'', JObj [(''id'', JStr ''''), (''approved'', JBool False)])]"
          "[(''id'', JStr ''''), (''approved'', JBool False)]" "''''" "Some False" None]
  have p1: "parse_approval
      [(''approval'', JObj [(''id'', JStr ''''), (''approved'', JBool False)])]
     = Inr (Some \<lparr>aid = '''', approved = Some False, reason = None\<rparr>)"
    by blast
  from b approval_attached_iff_id_key_present
      [of "[(''approval'', JObj [(''approved'', JBool True)])]"]
  have p2: "parse_approval [(''approval'', JObj [(''approved'', JBool True)])] = Inr None"
    by blast
  from c tool_call_with_ticket approval_attached_iff_id_key_present
      [of "[(''type'', JStr ''tool-call''), (''toolCallId'', JStr ''t7''),
            (''state'', JStr ''input-available''),
            (''approval'', JObj [(''id'', JStr ''apr-1'')])]" _ _ _ _
          "\<lparr>tool_call_id = ''t7'', tool_name = None,
            state = ''input-available'', tool_input = JNull, tool_output = JNull,
            approval = Some \<lparr>aid = ''apr-1'', approved = None, reason = None\<rparr>\<rparr>"]
  have p3: "\<exists>kvs. map_of [(''type'', JStr ''tool-call''), (''toolCallId'', JStr ''t7''),
                (''state'', JStr ''input-available''),
                (''approval'', JObj [(''id'', JStr ''apr-1'')])] ''approval''
              = Some (JObj kvs) \<and> kvs \<noteq> [] \<and> map_of kvs ''id'' \<noteq> None"
    by blast
  from p1 p2 p3 show ?thesis by blast
qed

theorem empty_approval_id_counterexample:
  "parse_sse_event
     (JObj [(''type'', JStr ''tool-input-available''), (''toolCallId'', JStr ''t1''),
            (''toolName'', JStr ''create_bucket''), (''input'', JObj []),
            (''approval'', JObj [(''id'', JStr '''')])])
   = Inr (ToolCallEvent \<lparr>tool_call_id = ''t1'', tool_name = Some ''create_bucket'',
            state = ''input-available'', tool_input = JObj [], tool_output = JNull,
            approval = Some \<lparr>aid = '''', approved = None, reason = None\<rparr>\<rparr>)"
  by (simp add: parse_sse_event_def py_get_default_def EVENT_PARSERS_def
      parse_tool_input_available_event_def parse_approval_def py_get_def mk_ToolApproval_def
      mk_ToolCallEvent_def bind_err_def)

text \<open>
  A record whose type string is no key of the table gives the \<open>UnknownEvent\<close> with that
  type string and the record itself.
\<close>

lemma unknown_type_gives_UnknownEvent:
  "map_of d ''type'' = Some (JStr t) \<Longrightarrow> map_of EVENT_PARSERS t = None \<Longrightarrow>
     parse_sse_event (JObj d) = Inr (UnknownEvent t d)"
  by (simp add: parse_sse_event_def py_get_default_def mk_UnknownEvent_def bind_err_def)

text \<open>
  C5, at a supported type. A \<open>data-usage\<close> record whose \<open>data\<close> entry is not a mapping
  makes \<^verbatim>\<open>_parse_usage_event\<close> call \<^verbatim>\<open>.get\<close> on it: the normalizer raises
  \<open>AttributeError\<close>, and the reader, which catches decode errors only, lets it through.
\<close>

theorem usage_event_non_mapping_data_raises:
  "parse_sse_event (JObj [(''type'', JStr ''data-usage''), (''data'', JNull)])
     = Inl AttributeError
   \<and> parse_sse_stream sample_loads [''data: '' @ doc_usage_null] Exhausted
     = ([], Some AttributeError)"
proof -
  have e: "parse_sse_event (JObj [(''type'', JStr ''data-usage''), (''data'', JNull)])
     = Inl AttributeError"
    by (simp add: parse_sse_event_def py_get_default_def EVENT_PARSERS_def parse_usage_event_def)
  have n: "doc_usage_null \<noteq> doc_hello" "doc_usage_null \<noteq> doc_world"
    "doc_usage_null \<noteq> doc_finish"
    by (simp_all add: doc_usage_null_def doc_hello_def doc_world_def doc_finish_def)
  have s: "py_strip doc_usage_null \<noteq> []" "py_strip doc_usage_null \<noteq> ''[DONE]''"
    by (simp_all add: doc_usage_null_def py_strip_def py_isspace_def)
  have "process_line sample_loads (''data: '' @ doc_usage_null) = Raise AttributeError"
    using n s e
    by (simp add: process_line_def startswith_def json_loads_def sample_loads_def Let_def)
  with e show ?thesis by simp
qed

subsection \<open>SSE line reader\<close>

lemma process_line_data:
  "process_line loads (''data: '' @ p) =
     (if py_strip p = [] \<or> py_strip p = ''[DONE]'' then Skip
      else case loads p of
        Inl m \<Rightarrow>
          Raise (KaiStreamError (''Failed to parse SSE event: '' @ m) m (JSONDecodeError m p))
      | Inr data \<Rightarrow> (case parse_sse_event data of Inl err \<Rightarrow> Raise err | Inr ev \<Rightarrow> Yield ev))"
  by (simp add: process_line_def startswith_def json_loads_def Let_def split: sum.splits)

lemma parse_sse_stream_append:
  "snd (parse_sse_stream loads pre Exhausted) = None \<Longrightarrow>
     parse_sse_stream loads (pre @ rest) fin =
       (fst (parse_sse_stream loads pre Exhausted) @ fst (parse_sse_stream loads rest fin),
        snd (parse_sse_stream loads rest fin))"
  by (induction pre) (auto split: line_result.splits prod.splits)

lemma parse_sse_stream_skip_line:
  "process_line loads l = Skip \<Longrightarrow>
     parse_sse_stream loads (pre @ l # post) fin = parse_sse_stream loads (pre @ post) fin"
  by (induction pre) (auto split: line_result.splits prod.splits)

lemma parse_sse_stream_closed:
  "parse_sse_stream loads ls StreamClosed = parse_sse_stream loads ls Exhausted"
  by (induction ls) (auto split: line_result.splits prod.splits)

lemma parse_sse_stream_protocol_error:
  assumes "snd (parse_sse_stream loads ls Exhausted) = None"
  shows "parse_sse_stream loads ls (ProtocolError m) =
     (fst (parse_sse_stream loads ls Exhausted),
      Some (KaiStreamError ''Connection error during streaming'' m (RemoteProtocolError m)))"
  using parse_sse_stream_append [OF assms, of "[]" "ProtocolError m"] by simp


lemma sample_docs_distinct:
  "doc_hello \<noteq> doc_world" "doc_hello \<noteq> doc_finish" "doc_world \<noteq> doc_finish"
  "doc_world \<noteq> doc_hello" "doc_finish \<noteq> doc_hello" "doc_finish \<noteq> doc_world"
  "''{not-json}'' \<noteq> doc_hello" "''{not-json}'' \<noteq> doc_world" "''{not-json}'' \<noteq> doc_finish"
  "''{not-json}'' \<noteq> doc_usage_null"
  "''[DONE]'' \<noteq> doc_hello" "''[DONE]'' \<noteq> doc_world" "''[DONE]'' \<noteq> doc_finish"
  "''[DONE]'' \<noteq> doc_usage_null"
  by (simp_all add: doc_hello_def doc_world_def doc_finish_def doc_usage_null_def)

lemma line_hello:
  "process_line sample_loads (''data: '' @ doc_hello) = Yield (TextEvent ''Hello '' None)"
  by (subst process_line_data)
    (simp add: sample_loads_def doc_hello_def py_strip_def py_isspace_def
      parse_sse_event_def py_get_default_def EVENT_PARSERS_def parse_text_event_def
      mk_TextEvent_def bind_err_def py_get_def)

lemma line_world:
  "process_line sample_loads (''data: '' @ doc_world) = Yield (TextEvent ''world!'' None)"
  by (subst process_line_data)
    (simp add: sample_loads_def sample_docs_distinct,
     simp add: doc_world_def py_strip_def py_isspace_def
      parse_sse_event_def py_get_default_def EVENT_PARSERS_def parse_text_event_def
      mk_TextEvent_def bind_err_def py_get_def)

lemma line_finish:
  "process_line sample_loads (''data: '' @ doc_finish) = Yield (FinishEvent ''stop'' None)"
  by (subst process_line_data)
    (simp add: sample_loads_def sample_docs_distinct,
     simp add: doc_finish_def py_strip_def py_isspace_def
      parse_sse_event_def py_get_default_def EVENT_PARSERS_def parse_finish_event_def
      mk_FinishEvent_def bind_err_def py_get_def)

lemma line_not_json:
  "process_line sample_loads ''data: {not-json}'' =
     Raise (KaiStreamError
       (''Failed to parse SSE event: ''
          @ ''Expecting property name enclosed in double quotes: line 1 column 2 (char 1)'')
       ''Expecting property name enclosed in double quotes: line 1 column 2 (char 1)''
       (JSONDecodeError
          ''Expecting property name enclosed in double quotes: line 1 column 2 (char 1)''
          ''{not-json}''))"
  using process_line_data [of sample_loads "''{not-json}''"]
  by (simp add: sample_loads_def sample_docs_distinct py_strip_def py_isspace_def)

lemma line_done: "process_line sample_loads ''data: [DONE]'' = Skip"
  using process_line_data [of sample_loads "''[DONE]''"]
  by (simp add: py_strip_def py_isspace_def)

text \<open>
  The scenario of the specification: two text records and a finish record give the text
  \<open>Hello world!\<close>, \<open>finished\<close> and the reason \<open>stop\<close>; comment, blank and \<open>[DONE]\<close> lines
  yield nothing.
\<close>

lemma hello_world_scenario:
  "consume_stream sample_loads init_state
     ['': keep-alive'', ''data: '' @ doc_hello, [], ''data: '' @ doc_world,
      ''data: '' @ doc_finish, ''data: [DONE]''] Exhausted
   = (\<lparr>accumulated_text = [''Hello '', ''world!''], tool_calls = [], finished = True,
        finish_reason = Some ''stop'', prompt_tokens = 0, completion_tokens = 0\<rparr>,
      [TextEvent ''Hello '' None, TextEvent ''world!'' None, FinishEvent ''stop'' None],
      None)"
proof -
  have c: "process_line sample_loads '': keep-alive'' = Skip"
    "process_line sample_loads [] = Skip"
    by (simp_all add: process_line_def startswith_def)
  show ?thesis
    by (simp add: consume_stream_def c line_hello [simplified] line_world [simplified]
        line_finish [simplified] line_done process_events_def init_state_def)
qed


text \<open>
  The two payloads the reader does not decode: a \<open>data: \<close> line whose stripped payload
  is empty or the terminator \<open>[DONE]\<close> is skipped, whatever the decoder would say.
\<close>

lemma blank_and_terminator_payload_skipped:
  "py_strip q = [] \<or> py_strip q = ''[DONE]'' \<Longrightarrow>
     parse_sse_stream loads (pre @ (''data: '' @ q) # post) fin =
       parse_sse_stream loads (pre @ post) fin"
proof -
  assume "py_strip q = [] \<or> py_strip q = ''[DONE]''"
  then have "process_line loads (''data: '' @ q) = Skip"
    by (subst process_line_data) simp
  then show ?thesis by (rule parse_sse_stream_skip_line)
qed



text \<open>
  C4, as the code has it. \<^verbatim>\<open>StreamClosed\<close> raised by the transport after any lines ends
  the sequence exactly as an exhausted source does, without an error of its own. A
  \<^verbatim>\<open>RemoteProtocolError\<close> raised after lines that were read without error is surfaced,
  after their events, as \<open>KaiStreamError\<close> with the message
  \<open>Connection error during streaming\<close>, the protocol error's text as cause, chained to
  it. That is the class of the error raised for malformed JSON too: the two differ in
  message and in the chained exception, not in type.
\<close>

theorem transport_closure_and_protocol_error:
  "parse_sse_stream loads ls StreamClosed = parse_sse_stream loads ls Exhausted
   \<and> (snd (parse_sse_stream loads ls Exhausted) = None \<longrightarrow>
        parse_sse_stream loads ls StreamClosed = (fst (parse_sse_stream loads ls Exhausted), None)
        \<and> parse_sse_stream loads ls (ProtocolError m) =
            (fst (parse_sse_stream loads ls Exhausted),
             Some (KaiStreamError ''Connection error during streaming'' m
                     (RemoteProtocolError m))))
   \<and> (py_strip p \<noteq> [] \<and> py_strip p \<noteq> ''[DONE]'' \<and> loads p = Inl m' \<longrightarrow>
        (\<exists>e1 e2. snd (parse_sse_stream loads [''data: '' @ p] Exhausted) = Some e1
           \<and> snd (parse_sse_stream loads [] (ProtocolError m)) = Some e2
           \<and> error_type e1 = ''KaiStreamError'' \<and> error_type e2 = ''KaiStreamError''
           \<and> message e1 \<noteq> message e2 \<and> chained e1 \<noteq> chained e2))"
proof (intro conjI impI)
  show "parse_sse_stream loads ls StreamClosed = parse_sse_stream loads ls Exhausted"
    by (rule parse_sse_stream_closed)
next
  assume h: "snd (parse_sse_stream loads ls Exhausted) = None"
  then show "parse_sse_stream loads ls StreamClosed
      = (fst (parse_sse_stream loads ls Exhausted), None)"
    by (simp add: parse_sse_stream_closed prod_eq_iff)
  from h show "parse_sse_stream loads ls (ProtocolError m) =
            (fst (parse_sse_stream loads ls Exhausted),
             Some (KaiStreamError ''Connection error during streaming'' m
                     (RemoteProtocolError m)))"
    by (rule parse_sse_stream_protocol_error)
next
  assume h: "py_strip p \<noteq> [] \<and> py_strip p \<noteq> ''[DONE]'' \<and> loads p = Inl m'"
  then have "process_line loads (''data: '' @ p) =
      Raise (KaiStreamError (''Failed to parse SSE event: '' @ m') m' (JSONDecodeError m' p))"
    by (subst process_line_data) simp
  then have "snd (parse_sse_stream loads [''data: '' @ p] Exhausted) =
      Some (KaiStreamError (''Failed to parse SSE event: '' @ m') m' (JSONDecodeError m' p))"
    by simp
  moreover have "snd (parse_sse_stream loads [] (ProtocolError m)) =
      Some (KaiStreamError ''Connection error during streaming'' m (RemoteProtocolError m))"
    by simp
  ultimately show "\<exists>e1 e2. snd (parse_sse_stream loads [''data: '' @ p] Exhausted) = Some e1
           \<and> snd (parse_sse_stream loads [] (ProtocolError m)) = Some e2
           \<and> error_type e1 = ''KaiStreamError'' \<and> error_type e2 = ''KaiStreamError''
           \<and> message e1 \<noteq> message e2 \<and> chained e1 \<noteq> chained e2"
    by simp
qed

theorem transport_closure_and_protocol_error_witness:
  "parse_sse_stream sample_loads [''data: '' @ doc_hello] StreamClosed
     = ([TextEvent ''Hello '' None], None)
   \<and> parse_sse_stream sample_loads [''data: '' @ doc_hello]
       (ProtocolError ''peer closed connection without sending complete message body'')
     = ([TextEvent ''Hello '' None],
        Some (KaiStreamError ''Connection error during streaming''
          ''peer closed connection without sending complete message body''
          (RemoteProtocolError
             ''peer closed connection without sending complete message body'')))
   \<and> (\<exists>e1 e2. snd (parse_sse_stream sample_loads [''data: '' @ ''{not-json}''] Exhausted)
          = Some e1
        \<and> snd (parse_sse_stream sample_loads []
            (ProtocolError ''peer closed connection without sending complete message body''))
          = Some e2
        \<and> error_type e1 = ''KaiStreamError'' \<and> error_type e2 = ''KaiStreamError''
        \<and> message e1 \<noteq> message e2 \<and> chained e1 \<noteq> chained e2)"
proof -
  have pre: "parse_sse_stream sample_loads [''data: '' @ doc_hello] Exhausted
      = ([TextEvent ''Hello '' None], None)"
    by (simp add: line_hello [simplified])
  have h1: "snd (parse_sse_stream sample_loads [''data: '' @ doc_hello] Exhausted) = None"
    by (simp only: pre snd_conv)
  have h2: "py_strip ''{not-json}'' \<noteq> [] \<and> py_strip ''{not-json}'' \<noteq> ''[DONE]''
      \<and> sample_loads ''{not-json}''
        = Inl ''Expecting property name enclosed in double quotes: line 1 column 2 (char 1)''"
    by (simp add: py_strip_def py_isspace_def sample_loads_def sample_docs_distinct)
  note t = transport_closure_and_protocol_error
      [of sample_loads "[''data: '' @ doc_hello]"
          "''peer closed connection without sending complete message body''"
          "''{not-json}''"
          "''Expecting property name enclosed in double quotes: line 1 column 2 (char 1)''"]
  from t h1 have p1: "parse_sse_stream sample_loads [''data: '' @ doc_hello] StreamClosed
     = (fst (parse_sse_stream sample_loads [''data: '' @ doc_hello] Exhausted), None)"
    by blast
  from t h1 have p2: "parse_sse_stream sample_loads [''data: '' @ doc_hello]
       (ProtocolError ''peer closed connection without sending complete message body'')
     = (fst (parse_sse_stream sample_loads [''data: '' @ doc_hello] Exhausted),
        Some (KaiStreamError ''Connection error during streaming''
          ''peer closed connection without sending complete message body''
          (RemoteProtocolError
             ''peer closed connection without sending complete message body'')))"
    by blast
  from t h2 have p3: "\<exists>e1 e2.
        snd (parse_sse_stream sample_loads [''data: '' @ ''{not-json}''] Exhausted) = Some e1
        \<and> snd (parse_sse_stream sample_loads []
            (ProtocolError ''peer closed connection without sending complete message body''))
          = Some e2
        \<and> error_type e1 = ''KaiStreamError'' \<and> error_type e2 = ''KaiStreamError''
        \<and> message e1 \<noteq> message e2 \<and> chained e1 \<noteq> chained e2"
    by blast
  from p1 p2 p3 show ?thesis by (simp only: pre fst_conv) 
qed

theorem same_error_type_counterexample:
  "map_option error_type (snd (parse_sse_stream sample_loads [''data: {not-json}''] Exhausted))
     = Some ''KaiStreamError''
   \<and> map_option error_type
       (snd (parse_sse_stream sample_loads []
          (ProtocolError ''peer closed connection without sending complete message body'')))
     = Some ''KaiStreamError''"
  by (simp add: line_not_json)

end
